theory Spec2Isabelle
  imports Main "HOL-Library.Word"
begin

unbundle bit_operations_syntax

section \<open>Scalar types and return codes\<close>

type_synonym uint8_t = "8 word"
type_synonym uint16_t = "16 word"
type_synonym uint32_t = "32 word"
type_synonym npage_t = "32 word"
type_synonym ncell_t = "16 word"
type_synonym chidb_key_t = "32 word"

text \<open>
  The return codes of \<^verbatim>\<open>chidbInt.h\<close>. The header with their numeric values is not
  among the sources, so the codes are kept apart as constructors.
\<close>

datatype rc =
    CHIDB_OK
  | CHIDB_ENOMEM
  | CHIDB_EIO
  | CHIDB_NOHEADER
  | CHIDB_EPAGENO
  | CHIDB_ECELLNO
  | CHIDB_ECORRUPTHEADER
  | CHIDB_ENOTFOUND
  | CHIDB_EDUPLICATE
  | CHIDB_EEMPTY

section \<open>Byte buffers\<close>

text \<open>
  A buffer is a list of bytes and a C pointer into it is an index. An access beyond the
  end of the buffer is undefined in C; here such a read gives 0 and such a write is
  dropped (\<open>list_update\<close>), and the theorems state the bounds they need.
\<close>

definition rd :: "uint8_t list \<Rightarrow> nat \<Rightarrow> uint8_t" where
  "rd p i = (if i < length p then p ! i else 0)"

fun wr_bytes :: "uint8_t list \<Rightarrow> nat \<Rightarrow> uint8_t list \<Rightarrow> uint8_t list" where
  "wr_bytes p i [] = p"
| "wr_bytes p i (b # bs) = wr_bytes (p[i := b]) (Suc i) bs"

definition rd_bytes :: "uint8_t list \<Rightarrow> nat \<Rightarrow> nat \<Rightarrow> uint8_t list" where
  "rd_bytes p i n = map (\<lambda>j. rd p (i + j)) [0..<n]"

text \<open>
  \<^verbatim>\<open>memmove(p + dst, p + src, n)\<close> inside one buffer: the source bytes are read before
  any byte is written.
\<close>

definition memmove :: "uint8_t list \<Rightarrow> nat \<Rightarrow> nat \<Rightarrow> nat \<Rightarrow> uint8_t list" where
  "memmove p dst src n = wr_bytes p dst (rd_bytes p src n)"

text \<open>
  Modelled from the spec: \<^verbatim>\<open>util.c\<close> (\<^verbatim>\<open>get2byte\<close>, \<^verbatim>\<open>put2byte\<close>, \<^verbatim>\<open>get4byte\<close>,
  \<^verbatim>\<open>put4byte\<close>, \<^verbatim>\<open>getVarint32\<close>, \<^verbatim>\<open>putVarint32\<close>) is not among the sources. Section 4.A
  of the specification: big-endian encode and decode of 16-bit and 32-bit unsigned
  integers at a byte offset; varints in the 7-bit continuation encoding (high bit set:
  more bytes follow). Section 3 gives every varint field of a cell four bytes, and
  \<^verbatim>\<open>btree.c\<close> addresses the fields after a varint at fixed offsets, so a varint is
  four bytes of seven value bits each, the first three with the high bit set.
\<close>

definition get2byte :: "uint8_t list \<Rightarrow> nat \<Rightarrow> uint16_t" where
  "get2byte p i = push_bit 8 (ucast (rd p i)) OR ucast (rd p (i + 1))"

definition put2byte :: "uint8_t list \<Rightarrow> nat \<Rightarrow> uint16_t \<Rightarrow> uint8_t list" where
  "put2byte p i v = p[i := ucast (drop_bit 8 v), i + 1 := ucast v]"

definition get4byte :: "uint8_t list \<Rightarrow> nat \<Rightarrow> uint32_t" where
  "get4byte p i =
     push_bit 24 (ucast (rd p i)) OR push_bit 16 (ucast (rd p (i + 1)))
       OR push_bit 8 (ucast (rd p (i + 2))) OR ucast (rd p (i + 3))"

definition put4byte :: "uint8_t list \<Rightarrow> nat \<Rightarrow> uint32_t \<Rightarrow> uint8_t list" where
  "put4byte p i v =
     p[i := ucast (drop_bit 24 v), i + 1 := ucast (drop_bit 16 v),
       i + 2 := ucast (drop_bit 8 v), i + 3 := ucast v]"

definition getVarint32 :: "uint8_t list \<Rightarrow> nat \<Rightarrow> uint32_t" where
  "getVarint32 p i =
     push_bit 21 (ucast (rd p i AND 0x7F)) OR push_bit 14 (ucast (rd p (i + 1) AND 0x7F))
       OR push_bit 7 (ucast (rd p (i + 2) AND 0x7F)) OR ucast (rd p (i + 3) AND 0x7F)"

definition putVarint32 :: "uint8_t list \<Rightarrow> nat \<Rightarrow> uint32_t \<Rightarrow> uint8_t list" where
  "putVarint32 p i v =
     p[i := ucast (drop_bit 21 v AND 0x7F) OR 0x80,
       i + 1 := ucast (drop_bit 14 v AND 0x7F) OR 0x80,
       i + 2 := ucast (drop_bit 7 v AND 0x7F) OR 0x80,
       i + 3 := ucast (v AND 0x7F)]"

section \<open>Page and cell layout constants\<close>

text \<open>
  \<^verbatim>\<open>btree.h\<close>, which defines the offsets and sizes used by \<^verbatim>\<open>btree.c\<close>, is not among the
  sources. The constants are therefore a parameter of the model: a record with one field
  for each macro, under the macro's name.
\<close>

record layout =
  PGHEADER_PGTYPE_OFFSET :: nat
  PGHEADER_FREE_OFFSET :: nat
  PGHEADER_NCELLS_OFFSET :: nat
  PGHEADER_CELL_OFFSET :: nat
  PGHEADER_ZERO_OFFSET :: nat
  PGHEADER_RIGHTPG_OFFSET :: nat
  INTPG_CELLSOFFSET_OFFSET :: nat
  LEAFPG_CELLSOFFSET_OFFSET :: nat
  TABLEINTCELL_CHILD_OFFSET :: nat
  TABLEINTCELL_KEY_OFFSET :: nat
  TABLEINTCELL_SIZE :: nat
  TABLELEAFCELL_SIZE_OFFSET :: nat
  TABLELEAFCELL_KEY_OFFSET :: nat
  TABLELEAFCELL_DATA_OFFSET :: nat
  TABLELEAFCELL_SIZE_WITHOUTDATA :: nat
  INDEXINTCELL_CHILD_OFFSET :: nat
  INDEXINTCELL_KEYIDX_OFFSET :: nat
  INDEXINTCELL_KEYPK_OFFSET :: nat
  INDEXINTCELL_SIZE :: nat
  INDEXLEAFCELL_KEYIDX_OFFSET :: nat
  INDEXLEAFCELL_KEYPK_OFFSET :: nat
  INDEXLEAFCELL_SIZE :: nat

text \<open>The layout of the chidb file format, used where a concrete layout is needed.\<close>

definition chidb_layout :: layout where
  "chidb_layout = \<lparr>
     PGHEADER_PGTYPE_OFFSET = 0,
     PGHEADER_FREE_OFFSET = 1,
     PGHEADER_NCELLS_OFFSET = 3,
     PGHEADER_CELL_OFFSET = 5,
     PGHEADER_ZERO_OFFSET = 7,
     PGHEADER_RIGHTPG_OFFSET = 8,
     INTPG_CELLSOFFSET_OFFSET = 12,
     LEAFPG_CELLSOFFSET_OFFSET = 8,
     TABLEINTCELL_CHILD_OFFSET = 0,
     TABLEINTCELL_KEY_OFFSET = 4,
     TABLEINTCELL_SIZE = 8,
     TABLELEAFCELL_SIZE_OFFSET = 0,
     TABLELEAFCELL_KEY_OFFSET = 4,
     TABLELEAFCELL_DATA_OFFSET = 8,
     TABLELEAFCELL_SIZE_WITHOUTDATA = 8,
     INDEXINTCELL_CHILD_OFFSET = 0,
     INDEXINTCELL_KEYIDX_OFFSET = 8,
     INDEXINTCELL_KEYPK_OFFSET = 12,
     INDEXINTCELL_SIZE = 16,
     INDEXLEAFCELL_KEYIDX_OFFSET = 4,
     INDEXLEAFCELL_KEYPK_OFFSET = 8,
     INDEXLEAFCELL_SIZE = 12 \<rparr>"

definition CHIDB_FILE_HEADER_LEN :: nat where
  "CHIDB_FILE_HEADER_LEN = 100"

text \<open>chidb node type masks, as \<^verbatim>\<open>btree.c\<close> defines them.\<close>

definition FLAG_TABLE :: uint8_t where
  "FLAG_TABLE = 0x01 OR 0x04"

definition FLAG_INDEX :: uint8_t where
  "FLAG_INDEX = 0x02"

definition FLAG_LEAF :: uint8_t where
  "FLAG_LEAF = 0x08"

text \<open>
  The four page types. \<^verbatim>\<open>btree.c\<close> fixes them through its masks and tables:
  \<^verbatim>\<open>chidb_Btree_insertInIndex\<close> uses \<^verbatim>\<open>FLAG_INDEX\<close> as a cell type, and the table of
  \<^verbatim>\<open>getCellSize\<close> is indexed by \<^verbatim>\<open>type >> 2\<close> in the order index-internal,
  table-internal, index-leaf, table-leaf.
\<close>

definition PGTYPE_TABLE_INTERNAL :: uint8_t where
  "PGTYPE_TABLE_INTERNAL = 0x05"

definition PGTYPE_TABLE_LEAF :: uint8_t where
  "PGTYPE_TABLE_LEAF = 0x0D"

definition PGTYPE_INDEX_INTERNAL :: uint8_t where
  "PGTYPE_INDEX_INTERNAL = 0x02"

definition PGTYPE_INDEX_LEAF :: uint8_t where
  "PGTYPE_INDEX_LEAF = 0x0A"

section \<open>Pages, nodes and cells\<close>

record MemPage =
  npage :: npage_t
  data :: "uint8_t list"

text \<open>
  \<^verbatim>\<open>celloffset_array\<close> points into \<^verbatim>\<open>page->data\<close>; it is kept as the index of the
  byte it points to.
\<close>

record BTreeNode =
  page :: MemPage
  node_type :: uint8_t
  free_offset :: uint16_t
  n_cells :: ncell_t
  cells_offset :: uint16_t
  right_page :: npage_t
  celloffset_array :: nat

text \<open>
  A \<^verbatim>\<open>BTreeCell\<close> has a type, a key and the member \<^verbatim>\<open>fields\<close>, whose sub-members
  \<^verbatim>\<open>btree.c\<close> reaches as \<^verbatim>\<open>fields.tableInternal.child_page\<close>,
  \<^verbatim>\<open>fields.tableLeaf.data_size\<close>, \<^verbatim>\<open>fields.tableLeaf.data\<close>,
  \<^verbatim>\<open>fields.indexInternal.keyPk\<close>, \<^verbatim>\<open>fields.indexInternal.child_page\<close> and
  \<^verbatim>\<open>fields.indexLeaf.keyPk\<close>. The record has one slot for each of these access paths,
  so that every read and write of the source is a read or write of the slot of the same
  name, whatever the cell's type. \<^verbatim>\<open>fields.tableLeaf.data\<close> is a pointer; its slot holds
  the bytes it points to.
\<close>

record BTreeCell =
  cell_type :: uint8_t
  key :: chidb_key_t
  tableInternal_child_page :: npage_t
  tableLeaf_data_size :: uint32_t
  tableLeaf_data :: "uint8_t list"
  indexInternal_keyPk :: chidb_key_t
  indexInternal_child_page :: npage_t
  indexLeaf_keyPk :: chidb_key_t

section \<open>Helpers of \<^verbatim>\<open>btree.c\<close>\<close>

definition pgtypeMap :: "uint8_t \<Rightarrow> uint8_t" where
  "pgtypeMap t = drop_bit 2 t"

definition getHeaderOffset :: "npage_t \<Rightarrow> nat" where
  "getHeaderOffset n = (if n \<noteq> 1 then 0 else CHIDB_FILE_HEADER_LEN)"

text \<open>A read of a constant table; beyond its end (undefined in C) the model gives 0.\<close>

definition tab_at :: "nat list \<Rightarrow> nat \<Rightarrow> nat" where
  "tab_at tab i = (if i < length tab then tab ! i else 0)"

definition getCellOffsetOffset :: "layout \<Rightarrow> uint8_t \<Rightarrow> nat" where
  "getCellOffsetOffset L t =
     tab_at [INTPG_CELLSOFFSET_OFFSET L, LEAFPG_CELLSOFFSET_OFFSET L]
       (unat (drop_bit 1 (pgtypeMap t)))"

definition getCellSize :: "layout \<Rightarrow> BTreeCell \<Rightarrow> nat" where
  "getCellSize L btc =
     (let i = unat (pgtypeMap (cell_type btc));
          size = tab_at [INDEXINTCELL_SIZE L, TABLEINTCELL_SIZE L,
                         INDEXLEAFCELL_SIZE L, TABLELEAFCELL_SIZE_WITHOUTDATA L] i
      in if cell_type btc AND (FLAG_LEAF OR FLAG_TABLE) \<noteq> 0
         then size + unat (tableLeaf_data_size btc)
         else size)"

definition unpackBTC :: "layout \<Rightarrow> uint8_t list \<Rightarrow> nat \<Rightarrow> BTreeCell \<Rightarrow> uint8_t list" where
  "unpackBTC L p head btc =
     (if cell_type btc = PGTYPE_TABLE_INTERNAL then
        put4byte (putVarint32 p (head + TABLEINTCELL_KEY_OFFSET L) (key btc))
          (head + TABLEINTCELL_CHILD_OFFSET L) (tableInternal_child_page btc)
      else if cell_type btc = PGTYPE_TABLE_LEAF then
        wr_bytes
          (putVarint32 (putVarint32 p (head + TABLELEAFCELL_KEY_OFFSET L) (key btc))
             (head + TABLELEAFCELL_SIZE_OFFSET L) (tableLeaf_data_size btc))
          (head + TABLELEAFCELL_DATA_OFFSET L)
          (rd_bytes (tableLeaf_data btc) 0 (unat (tableLeaf_data_size btc)))
      else if cell_type btc = PGTYPE_INDEX_INTERNAL then
        put4byte
          (put4byte (put4byte p (head + INDEXINTCELL_KEYIDX_OFFSET L) (key btc))
             (head + INDEXINTCELL_KEYPK_OFFSET L) (indexInternal_keyPk btc))
          (head + INDEXINTCELL_CHILD_OFFSET L) (indexInternal_child_page btc)
      else if cell_type btc = PGTYPE_INDEX_LEAF then
        put4byte (put4byte p (head + INDEXLEAFCELL_KEYIDX_OFFSET L) (key btc))
          (head + INDEXLEAFCELL_KEYPK_OFFSET L) (indexLeaf_keyPk btc)
      else p)"

text \<open>
  \<^verbatim>\<open>chidb_Btree_insertCell\<close>. The node is updated in place in C; the model returns the
  return code and the node after the call. \<^verbatim>\<open>cells_offset\<close> is a \<^verbatim>\<open>uint16_t\<close>, so the
  subtraction of the \<^verbatim>\<open>size_t\<close> cell size wraps modulo \<open>2 ^ 16\<close>.
\<close>

definition chidb_Btree_insertCell ::
    "layout \<Rightarrow> BTreeNode \<Rightarrow> ncell_t \<Rightarrow> BTreeCell \<Rightarrow> rc \<times> BTreeNode" where
  "chidb_Btree_insertCell L btn ncell cell =
     (if ncell > n_cells btn then (CHIDB_ECELLNO, btn)
      else
        let old_n_cells = n_cells btn;
            co = (word_of_int (uint (cells_offset btn) - int (getCellSize L cell)) :: uint16_t);
            cell_offset = unat co;
            arr = celloffset_array btn;
            d1 = unpackBTC L (data (page btn)) cell_offset cell;
            d2 = (if ncell < old_n_cells
                  then memmove d1 (arr + 2 * (unat ncell + 1)) (arr + 2 * unat ncell)
                         (2 * (unat old_n_cells - unat ncell))
                  else d1);
            d3 = put2byte d2 (arr + 2 * unat ncell) co
        in (CHIDB_OK,
            btn\<lparr> page := (page btn)\<lparr> data := d3 \<rparr>,
                 n_cells := old_n_cells + 1,
                 cells_offset := co,
                 free_offset := free_offset btn + 2 \<rparr>))"

section \<open>The pager\<close>

text \<open>
  Modelled from the spec: the pager (\<^verbatim>\<open>pager.c\<close>) is not among the sources. Section 6.1
  of the specification gives its interface: \<^verbatim>\<open>read_header\<close> returns an error when the
  file is shorter than 100 bytes; \<^verbatim>\<open>allocate_page\<close> returns a newly appended page
  number; \<^verbatim>\<open>read_page\<close> gives a page that owns a buffer of the configured size, or
  \<^verbatim>\<open>PAGENO\<close> for a bad page number; \<^verbatim>\<open>write_page\<close> writes the page to the file;
  \<^verbatim>\<open>release_page\<close> drops the reference. \<open>contents\<close> is the file, a sequence of
  bytes (a file that does not exist is opened as the empty file, as the comment of
  \<^verbatim>\<open>chidb_Btree_open\<close> says); \<open>held\<close> counts the pages read and not yet released.
  A page that was allocated and never written reads as zeros. Allocation and I/O
  failures (\<^verbatim>\<open>NOMEM\<close>, \<^verbatim>\<open>IO\<close>) are not modelled: \<^verbatim>\<open>malloc\<close> and the file system
  succeed.
\<close>

record Pager =
  contents :: "uint8_t list"
  page_size :: nat
  n_pages :: nat
  held :: nat

definition chidb_Pager_open :: "uint8_t list \<Rightarrow> Pager" where
  "chidb_Pager_open f = \<lparr> contents = f, page_size = 0, n_pages = 0, held = 0 \<rparr>"

definition chidb_Pager_readHeader :: "Pager \<Rightarrow> rc + uint8_t list" where
  "chidb_Pager_readHeader p =
     (if length (contents p) < 100 then Inl CHIDB_NOHEADER else Inr (take 100 (contents p)))"

definition chidb_Pager_setPageSize :: "Pager \<Rightarrow> nat \<Rightarrow> Pager" where
  "chidb_Pager_setPageSize p sz = p\<lparr> page_size := sz, n_pages := length (contents p) div sz \<rparr>"

definition chidb_Pager_allocatePage :: "Pager \<Rightarrow> Pager \<times> npage_t" where
  "chidb_Pager_allocatePage p = (p\<lparr> n_pages := n_pages p + 1 \<rparr>, word_of_nat (n_pages p + 1))"

definition chidb_Pager_readPage :: "Pager \<Rightarrow> npage_t \<Rightarrow> rc \<times> Pager \<times> MemPage option" where
  "chidb_Pager_readPage p n =
     (if n = 0 \<or> unat n > n_pages p then (CHIDB_EPAGENO, p, None)
      else (CHIDB_OK, p\<lparr> held := held p + 1 \<rparr>,
            Some \<lparr> npage = n,
                   data = rd_bytes (contents p) ((unat n - 1) * page_size p) (page_size p) \<rparr>))"

definition chidb_Pager_writePage :: "Pager \<Rightarrow> MemPage \<Rightarrow> Pager" where
  "chidb_Pager_writePage p pg =
     (let off = (unat (npage pg) - 1) * page_size p;
          f = contents p @ replicate (off + page_size p - length (contents p)) 0
      in p\<lparr> contents := wr_bytes f off (rd_bytes (data pg) 0 (page_size p)) \<rparr>)"

definition chidb_Pager_releaseMemPage :: "Pager \<Rightarrow> MemPage \<Rightarrow> rc \<times> Pager" where
  "chidb_Pager_releaseMemPage p pg = (CHIDB_OK, p\<lparr> held := held p - 1 \<rparr>)"

text \<open>
  Modelled from the spec: \<^verbatim>\<open>DEFAULT_PAGE_SIZE\<close> is defined in a header that is not among
  the sources; section 4.G of the specification gives the default page size as 1024.
\<close>

definition DEFAULT_PAGE_SIZE :: nat where
  "DEFAULT_PAGE_SIZE = 1024"

section \<open>The B-tree file\<close>

record BTree =
  pager :: Pager

subsection \<open>Nodes\<close>

text \<open>
  \<^verbatim>\<open>packBTN\<close> fills the node given by its first argument; \<^verbatim>\<open>right_page\<close> is assigned
  on internal nodes only and keeps its former value otherwise.
\<close>

definition packBTN :: "layout \<Rightarrow> BTreeNode \<Rightarrow> MemPage \<Rightarrow> BTreeNode" where
  "packBTN L btn pg =
     (let head = getHeaderOffset (npage pg);
          t = rd (data pg) (head + PGHEADER_PGTYPE_OFFSET L);
          btn1 = btn\<lparr> page := pg,
                      node_type := t,
                      free_offset := get2byte (data pg) (head + PGHEADER_FREE_OFFSET L),
                      n_cells := get2byte (data pg) (head + PGHEADER_NCELLS_OFFSET L),
                      cells_offset := get2byte (data pg) (head + PGHEADER_CELL_OFFSET L),
                      celloffset_array := head + getCellOffsetOffset L t \<rparr>
      in if t AND FLAG_LEAF = 0
         then btn1\<lparr> right_page := get4byte (data pg) (head + PGHEADER_RIGHTPG_OFFSET L) \<rparr>
         else btn1)"

text \<open>
  \<^verbatim>\<open>chidb_Btree_getNodeByPage\<close> allocates the node with \<^verbatim>\<open>malloc\<close>; the argument
  \<open>m\<close> is the content of the fresh memory, which C leaves unspecified.
\<close>

definition chidb_Btree_getNodeByPage ::
    "layout \<Rightarrow> BTreeNode \<Rightarrow> BTree \<Rightarrow> npage_t \<Rightarrow> rc \<times> BTree \<times> BTreeNode option" where
  "chidb_Btree_getNodeByPage L m bt n =
     (case chidb_Pager_readPage (pager bt) n of
        (r, p, None) \<Rightarrow> (r, bt\<lparr> pager := p \<rparr>, None)
      | (r, p, Some pg) \<Rightarrow> (CHIDB_OK, bt\<lparr> pager := p \<rparr>, Some (packBTN L m pg)))"

definition chidb_Btree_freeMemNode :: "BTree \<Rightarrow> BTreeNode \<Rightarrow> rc \<times> BTree" where
  "chidb_Btree_freeMemNode bt btn =
     (case chidb_Pager_releaseMemPage (pager bt) (page btn) of
        (r, p) \<Rightarrow> (r, bt\<lparr> pager := p \<rparr>))"

text \<open>
  \<^verbatim>\<open>chidb_Btree_writeNode\<close> stores the header fields in the node's page and hands the
  page to the pager. The result is the return code, the B-tree file and the node, whose
  page now holds the header.
\<close>

definition chidb_Btree_writeNode ::
    "layout \<Rightarrow> BTree \<Rightarrow> BTreeNode \<Rightarrow> rc \<times> BTree \<times> BTreeNode" where
  "chidb_Btree_writeNode L bt btn =
     (let head = getHeaderOffset (npage (page btn));
          d1 = (data (page btn))[head + PGHEADER_PGTYPE_OFFSET L := node_type btn];
          d2 = d1[head + PGHEADER_ZERO_OFFSET L := 0];
          d3 = put2byte d2 (head + PGHEADER_FREE_OFFSET L) (free_offset btn);
          d4 = put2byte d3 (head + PGHEADER_NCELLS_OFFSET L) (n_cells btn);
          d5 = put2byte d4 (head + PGHEADER_CELL_OFFSET L) (cells_offset btn);
          d6 = (if node_type btn AND FLAG_LEAF = 0
                then put4byte d5 (head + PGHEADER_RIGHTPG_OFFSET L) (right_page btn)
                else d5);
          pg = (page btn)\<lparr> data := d6 \<rparr>
      in (CHIDB_OK, bt\<lparr> pager := chidb_Pager_writePage (pager bt) pg \<rparr>, btn\<lparr> page := pg \<rparr>))"

definition chidb_Btree_initEmptyNode :: "layout \<Rightarrow> BTree \<Rightarrow> npage_t \<Rightarrow> uint8_t \<Rightarrow> rc \<times> BTree" where
  "chidb_Btree_initEmptyNode L bt n t =
     (case chidb_Pager_readPage (pager bt) n of
        (r, p, None) \<Rightarrow> (r, bt\<lparr> pager := p \<rparr>)
      | (r, p, Some pg) \<Rightarrow>
          (let combined_offset = getHeaderOffset n + getCellOffsetOffset L t;
               btn = \<lparr> page = pg,
                       node_type = t,
                       free_offset = word_of_nat combined_offset,
                       n_cells = 0,
                       cells_offset = word_of_nat (page_size p),
                       right_page = 0,
                       celloffset_array = combined_offset \<rparr>
           in case chidb_Btree_writeNode L (bt\<lparr> pager := p \<rparr>) btn of
                (r1, bt1, btn1) \<Rightarrow>
                  (CHIDB_OK,
                   bt1\<lparr> pager := snd (chidb_Pager_releaseMemPage (pager bt1) pg) \<rparr>)))"

definition chidb_Btree_newNode :: "layout \<Rightarrow> BTree \<Rightarrow> uint8_t \<Rightarrow> rc \<times> BTree \<times> npage_t" where
  "chidb_Btree_newNode L bt t =
     (case chidb_Pager_allocatePage (pager bt) of
        (p, n) \<Rightarrow>
          (case chidb_Btree_initEmptyNode L (bt\<lparr> pager := p \<rparr>) n t of
             (r, bt1) \<Rightarrow> (r, bt1, n)))"

subsection \<open>Cells\<close>

text \<open>
  \<^verbatim>\<open>chidb_Btree_getCell\<close> writes into the cell given by its last argument; the members
  it does not assign keep their former values. Its test \<^verbatim>\<open>ncell < 0\<close> never holds for
  the unsigned \<^verbatim>\<open>ncell_t\<close>. The data pointer of a table leaf cell
  points into the page: its slot holds the bytes of the page from there on.
\<close>

definition chidb_Btree_getCell ::
    "layout \<Rightarrow> BTreeNode \<Rightarrow> ncell_t \<Rightarrow> BTreeCell \<Rightarrow> rc \<times> BTreeCell" where
  "chidb_Btree_getCell L btn ncell cell =
     (if ncell \<ge> n_cells btn then (CHIDB_ECELLNO, cell)
      else
        let d = data (page btn);
            head = unat (get2byte d (celloffset_array btn + 2 * unat ncell));
            c = cell\<lparr> cell_type := node_type btn \<rparr>
        in if cell_type c = PGTYPE_TABLE_INTERNAL then
             (CHIDB_OK,
              c\<lparr> key := getVarint32 d (head + TABLEINTCELL_KEY_OFFSET L),
                 tableInternal_child_page := get4byte d (head + TABLEINTCELL_CHILD_OFFSET L) \<rparr>)
           else if cell_type c = PGTYPE_TABLE_LEAF then
             (CHIDB_OK,
              c\<lparr> key := getVarint32 d (head + TABLELEAFCELL_KEY_OFFSET L),
                 tableLeaf_data_size := getVarint32 d (head + TABLELEAFCELL_SIZE_OFFSET L),
                 tableLeaf_data := drop (head + TABLELEAFCELL_DATA_OFFSET L) d \<rparr>)
           else if cell_type c = PGTYPE_INDEX_INTERNAL then
             (CHIDB_OK,
              c\<lparr> key := get4byte d (head + INDEXINTCELL_KEYIDX_OFFSET L),
                 indexInternal_keyPk := get4byte d (head + INDEXINTCELL_KEYPK_OFFSET L),
                 indexInternal_child_page := get4byte d (head + INDEXINTCELL_CHILD_OFFSET L) \<rparr>)
           else if cell_type c = PGTYPE_INDEX_LEAF then
             (CHIDB_OK,
              c\<lparr> key := get4byte d (head + INDEXLEAFCELL_KEYIDX_OFFSET L),
                 indexLeaf_keyPk := get4byte d (head + INDEXLEAFCELL_KEYPK_OFFSET L) \<rparr>)
           else (CHIDB_OK, c))"

text \<open>
  The loop of \<^verbatim>\<open>nodeBTCArray\<close>, from cell \<open>i\<close> for \<open>k\<close> more cells. The array comes
  from \<^verbatim>\<open>malloc\<close>: \<open>c0\<close> is the unspecified content of a fresh element.
\<close>

fun nodeBTCArray_loop ::
    "layout \<Rightarrow> BTreeNode \<Rightarrow> BTreeCell \<Rightarrow> nat \<Rightarrow> nat \<Rightarrow> rc + BTreeCell list" where
  "nodeBTCArray_loop L btn c0 i 0 = Inr []"
| "nodeBTCArray_loop L btn c0 i (Suc k) =
     (case chidb_Btree_getCell L btn (word_of_nat i) c0 of
        (r, c) \<Rightarrow>
          if r \<noteq> CHIDB_OK then Inl r
          else (case nodeBTCArray_loop L btn c0 (Suc i) k of
                  Inl e \<Rightarrow> Inl e
                | Inr cs \<Rightarrow> Inr (c # cs)))"

definition nodeBTCArray :: "layout \<Rightarrow> BTreeNode \<Rightarrow> BTreeCell \<Rightarrow> rc + BTreeCell list" where
  "nodeBTCArray L btn c0 =
     (if n_cells btn = 0 then Inl CHIDB_ENOTFOUND
      else nodeBTCArray_loop L btn c0 0 (unat (n_cells btn)))"

text \<open>
  The loop of \<^verbatim>\<open>nodeKeyBSearch\<close> on its \<^verbatim>\<open>int\<close> bounds. The result is the return
  value (1 as \<open>True\<close>) and the cell number stored through \<^verbatim>\<open>ncell\<close>.
\<close>

function nodeKeyBSearch_loop ::
    "BTreeCell list \<Rightarrow> chidb_key_t \<Rightarrow> int \<Rightarrow> int \<Rightarrow> bool \<times> ncell_t" where
  "nodeKeyBSearch_loop btc_arr k left right =
     (if left \<le> right then
        (if key (btc_arr ! nat (left + (right - left) div 2)) < k
         then nodeKeyBSearch_loop btc_arr k (left + (right - left) div 2 + 1) right
         else if key (btc_arr ! nat (left + (right - left) div 2)) > k
         then nodeKeyBSearch_loop btc_arr k left (left + (right - left) div 2 - 1)
         else (True, word_of_int (left + (right - left) div 2)))
      else (False, word_of_int left))"
  by pat_completeness auto
termination
  by (relation "measure (\<lambda>(a, k, l, r). nat (r - l + 1))") auto

declare nodeKeyBSearch_loop.simps [simp del]

definition nodeKeyBSearch ::
    "BTreeNode \<Rightarrow> BTreeCell list \<Rightarrow> chidb_key_t \<Rightarrow> bool \<times> ncell_t" where
  "nodeKeyBSearch btn btc_arr k = nodeKeyBSearch_loop btc_arr k 0 (uint (n_cells btn) - 1)"

text \<open>
  \<^verbatim>\<open>cellRecordCpy\<close>: the size goes through a \<^verbatim>\<open>uint16_t\<close>; the result is the return
  code, the copied bytes and the size.
\<close>

definition cellRecordCpy :: "BTreeCell \<Rightarrow> rc \<times> uint8_t list \<times> uint16_t" where
  "cellRecordCpy btc =
     (let size = (ucast (tableLeaf_data_size btc) :: uint16_t)
      in (CHIDB_OK, rd_bytes (tableLeaf_data btc) 0 (unat size), size))"

subsection \<open>Search\<close>

text \<open>
  The loop of \<^verbatim>\<open>chidb_Btree_find\<close>, one iteration for each unit of fuel; \<open>None\<close> when
  the fuel runs out before the loop is left. \<open>m\<close> and \<open>c0\<close> are the unspecified
  contents of the memory \<^verbatim>\<open>malloc\<close> returns for a node and for a cell. The result is
  the return code, the copied data with its size where \<^verbatim>\<open>cellRecordCpy\<close> stored them,
  and the B-tree file. A node still loaded when the loop is left is released after the
  loop in C, and here in the branch that leaves it. In C the return code passes through
  a \<^verbatim>\<open>uint8_t\<close> variable; the model keeps the code itself.
\<close>

fun find_loop ::
    "nat \<Rightarrow> layout \<Rightarrow> BTreeNode \<Rightarrow> BTreeCell \<Rightarrow> BTree \<Rightarrow> npage_t \<Rightarrow> npage_t \<Rightarrow> chidb_key_t
       \<Rightarrow> (rc \<times> (uint8_t list \<times> uint16_t) option \<times> BTree) option" where
  "find_loop 0 L m c0 bt nroot np k = None"
| "find_loop (Suc fuel) L m c0 bt nroot np k =
     (case chidb_Btree_getNodeByPage L m bt np of
        (r, bt1, None) \<Rightarrow> Some (r, None, bt1)
      | (r, bt1, Some btn) \<Rightarrow>
          (case nodeBTCArray L btn c0 of
             Inl e \<Rightarrow> Some (e, None, snd (chidb_Btree_freeMemNode bt1 btn))
           | Inr btc_arr \<Rightarrow>
               (let table = (node_type btn AND FLAG_TABLE \<noteq> 0);
                    leaf = (node_type btn AND FLAG_LEAF \<noteq> 0);
                    index = (node_type btn AND FLAG_INDEX \<noteq> 0);
                    match = fst (nodeKeyBSearch btn btc_arr k);
                    ncell = snd (nodeKeyBSearch btn btc_arr k)
                in if match \<and> leaf \<and> table then
                     (case cellRecordCpy (btc_arr ! unat ncell) of
                        (r2, d, sz) \<Rightarrow>
                          Some (r2, Some (d, sz), snd (chidb_Btree_freeMemNode bt1 btn)))
                   else if match \<and> index then
                     find_loop fuel L m c0 (snd (chidb_Btree_freeMemNode bt1 btn)) nroot nroot
                       (if leaf then indexLeaf_keyPk (btc_arr ! unat ncell)
                        else indexInternal_keyPk (btc_arr ! unat ncell))
                   else if \<not> leaf then
                     find_loop fuel L m c0 (snd (chidb_Btree_freeMemNode bt1 btn)) nroot
                       (if ncell = n_cells btn then right_page btn
                        else if table then tableInternal_child_page (btc_arr ! unat ncell)
                        else indexInternal_child_page (btc_arr ! unat ncell))
                       k
                   else Some (CHIDB_ENOTFOUND, None, snd (chidb_Btree_freeMemNode bt1 btn)))))"

definition chidb_Btree_find ::
    "nat \<Rightarrow> layout \<Rightarrow> BTreeNode \<Rightarrow> BTreeCell \<Rightarrow> BTree \<Rightarrow> npage_t \<Rightarrow> chidb_key_t
       \<Rightarrow> (rc \<times> (uint8_t list \<times> uint16_t) option \<times> BTree) option" where
  "chidb_Btree_find fuel L m c0 bt nroot k = find_loop fuel L m c0 bt nroot nroot k"

subsection \<open>Insertion\<close>

text \<open>
  \<^verbatim>\<open>chidb_Btree_insert\<close>, \<^verbatim>\<open>chidb_Btree_insertNonFull\<close> and \<^verbatim>\<open>chidb_Btree_split\<close> have
  the body \<^verbatim>\<open>return CHIDB_OK;\<close> in \<^verbatim>\<open>btree.c\<close>.
\<close>

definition chidb_Btree_insert :: "BTree \<Rightarrow> npage_t \<Rightarrow> BTreeCell \<Rightarrow> rc \<times> BTree" where
  "chidb_Btree_insert bt nroot btc = (CHIDB_OK, bt)"

definition chidb_Btree_insertNonFull :: "BTree \<Rightarrow> npage_t \<Rightarrow> BTreeCell \<Rightarrow> rc \<times> BTree" where
  "chidb_Btree_insertNonFull bt n btc = (CHIDB_OK, bt)"

definition chidb_Btree_split ::
    "BTree \<Rightarrow> npage_t \<Rightarrow> npage_t \<Rightarrow> ncell_t \<Rightarrow> rc \<times> BTree" where
  "chidb_Btree_split bt npage_parent npage_child parent_ncell = (CHIDB_OK, bt)"

text \<open>
  The two wrappers build the cell from their arguments. The slots of the members the
  initialiser does not name are zero here (in C they share the storage of the named
  ones); \<^verbatim>\<open>chidb_Btree_insert\<close> reads none of them.
\<close>

definition chidb_Btree_insertInTable ::
    "BTree \<Rightarrow> npage_t \<Rightarrow> chidb_key_t \<Rightarrow> uint8_t list \<Rightarrow> uint16_t \<Rightarrow> rc \<times> BTree" where
  "chidb_Btree_insertInTable bt nroot k d sz =
     (let btc = \<lparr> cell_type = PGTYPE_TABLE_LEAF,
                  key = k,
                  tableInternal_child_page = 0,
                  tableLeaf_data_size = ucast sz,
                  tableLeaf_data = d,
                  indexInternal_keyPk = 0,
                  indexInternal_child_page = 0,
                  indexLeaf_keyPk = 0 \<rparr>
      in chidb_Btree_insert bt nroot btc)"

definition chidb_Btree_insertInIndex ::
    "BTree \<Rightarrow> npage_t \<Rightarrow> chidb_key_t \<Rightarrow> chidb_key_t \<Rightarrow> rc \<times> BTree" where
  "chidb_Btree_insertInIndex bt nroot keyIdx keyPk =
     (let btc = \<lparr> cell_type = FLAG_INDEX,
                  key = keyIdx,
                  tableInternal_child_page = 0,
                  tableLeaf_data_size = 0,
                  tableLeaf_data = [],
                  indexInternal_keyPk = 0,
                  indexInternal_child_page = 0,
                  indexLeaf_keyPk = keyPk \<rparr>
      in chidb_Btree_insert bt nroot btc)"

subsection \<open>The file header\<close>

text \<open>
  A C string is the list of its bytes with the terminating zero. \<^verbatim>\<open>strncmp\<close> compares
  at most \<open>n\<close> bytes from index \<open>i\<close> on and stops after a zero byte; \<^verbatim>\<open>strncpy\<close>
  copies the string and fills up to \<open>n\<close> bytes with zeros.
\<close>

definition SQLite_format_3 :: "uint8_t list" where
  "SQLite_format_3 = map of_char ''SQLite format 3'' @ [0]"

fun strncmp :: "uint8_t list \<Rightarrow> uint8_t list \<Rightarrow> nat \<Rightarrow> nat \<Rightarrow> int" where
  "strncmp s1 s2 i 0 = 0"
| "strncmp s1 s2 i (Suc n) =
     (if rd s1 i \<noteq> rd s2 i then uint (rd s1 i) - uint (rd s2 i)
      else if rd s1 i = 0 then 0
      else strncmp s1 s2 (Suc i) n)"

definition strncpy :: "uint8_t list \<Rightarrow> nat \<Rightarrow> uint8_t list \<Rightarrow> nat \<Rightarrow> uint8_t list" where
  "strncpy p dst src n =
     (let s = takeWhile (\<lambda>b. b \<noteq> 0) src
      in wr_bytes p dst (take n s @ replicate (n - length s) 0))"

definition verifyHeader :: "uint8_t list \<Rightarrow> rc" where
  "verifyHeader buf_head =
     (let invalid_header =
            (strncmp buf_head SQLite_format_3 0 16 \<noteq> 0 \<or>
             rd buf_head 18 \<noteq> 1 \<or>
             rd buf_head 19 \<noteq> 1 \<or>
             rd buf_head 20 \<noteq> 0 \<or>
             rd buf_head 21 \<noteq> 64 \<or>
             rd buf_head 22 \<noteq> 32 \<or>
             rd buf_head 23 \<noteq> 32 \<or>
             get4byte buf_head 32 \<noteq> 0 \<or>
             get4byte buf_head 36 \<noteq> 0 \<or>
             get4byte buf_head 44 \<noteq> 1 \<or>
             get4byte buf_head 48 \<noteq> 20000 \<or>
             get4byte buf_head 52 \<noteq> 0 \<or>
             get4byte buf_head 56 \<noteq> 1 \<or>
             get4byte buf_head 64 \<noteq> 0)
      in if invalid_header then CHIDB_ECORRUPTHEADER else CHIDB_OK)"

subsection \<open>Opening a file\<close>

text \<open>
  \<^verbatim>\<open>chidb_Btree_open\<close> on the file with the given bytes. The result is the return code
  and, on success, the B-tree file; on the paths through \<^verbatim>\<open>EXIT\<close> the pager is closed
  and the handle freed.
\<close>

definition chidb_Btree_open :: "layout \<Rightarrow> uint8_t list \<Rightarrow> rc \<times> BTree option" where
  "chidb_Btree_open L f =
     (let p0 = chidb_Pager_open f
      in case chidb_Pager_readHeader p0 of
           Inl e \<Rightarrow>
             (case chidb_Btree_newNode L
                     \<lparr> pager = chidb_Pager_setPageSize p0 DEFAULT_PAGE_SIZE \<rparr>
                     PGTYPE_TABLE_LEAF of
                (r, bt1, n) \<Rightarrow>
                  if r \<noteq> CHIDB_OK then (r, None)
                  else
                    (case chidb_Pager_readPage (pager bt1) 1 of
                       (r1, p1, None) \<Rightarrow> (r1, None)
                     | (r1, p1, Some pg) \<Rightarrow>
                         (let d0 = strncpy (data pg) 0 SQLite_format_3 16;
                              d1 = put2byte d0 16 (word_of_nat DEFAULT_PAGE_SIZE);
                              d2 = d1[18 := 1, 19 := 1, 20 := 0, 21 := 64, 22 := 32, 23 := 32];
                              d3 = put4byte d2 24 0;
                              d4 = put4byte d3 32 0;
                              d5 = put4byte d4 36 0;
                              d6 = put4byte d5 40 0;
                              d7 = put4byte d6 44 1;
                              d8 = put4byte d7 48 20000;
                              d9 = put4byte d8 52 0;
                              d10 = put4byte d9 56 1;
                              d11 = put4byte d10 60 0;
                              d12 = put4byte d11 64 0;
                              pg1 = pg\<lparr> data := d12 \<rparr>;
                              p2 = chidb_Pager_writePage p1 pg1;
                              p3 = snd (chidb_Pager_releaseMemPage p2 pg1)
                          in (CHIDB_OK, Some (bt1\<lparr> pager := p3 \<rparr>)))))
         | Inr header_buf \<Rightarrow>
             if verifyHeader header_buf \<noteq> CHIDB_OK then (CHIDB_ECORRUPTHEADER, None)
             else (CHIDB_OK,
                   Some \<lparr> pager = chidb_Pager_setPageSize p0 (unat (get2byte header_buf 16)) \<rparr>))"

section \<open>Well-formed page header layouts\<close>

text \<open>
  The fields of a page header as (offset, width) pairs. A layout is usable when no two
  of them overlap, and a header lies in a page when each field ends within the page's
  buffer.
\<close>

definition sep :: "nat \<times> nat \<Rightarrow> nat \<times> nat \<Rightarrow> bool" where
  "sep a b = (fst a + snd a \<le> fst b \<or> fst b + snd b \<le> fst a)"

fun pairwise_sep :: "(nat \<times> nat) list \<Rightarrow> bool" where
  "pairwise_sep [] = True"
| "pairwise_sep (f # fs) = (list_all (sep f) fs \<and> pairwise_sep fs)"

definition page_header_fields :: "layout \<Rightarrow> (nat \<times> nat) list" where
  "page_header_fields L =
     [(PGHEADER_PGTYPE_OFFSET L, 1), (PGHEADER_ZERO_OFFSET L, 1), (PGHEADER_FREE_OFFSET L, 2),
      (PGHEADER_NCELLS_OFFSET L, 2), (PGHEADER_CELL_OFFSET L, 2), (PGHEADER_RIGHTPG_OFFSET L, 4)]"

definition page_header_ok :: "layout \<Rightarrow> bool" where
  "page_header_ok L = pairwise_sep (page_header_fields L)"

definition header_in_page :: "layout \<Rightarrow> MemPage \<Rightarrow> bool" where
  "header_in_page L pg =
     list_all (\<lambda>f. getHeaderOffset (npage pg) + fst f + snd f \<le> length (data pg))
       (page_header_fields L)"

section \<open>Well-formed cell layouts\<close>





section \<open>Example values\<close>

text \<open>
  A table leaf node on page 2 of a file with 64-byte pages, with no cells, and a table
  leaf cell with key 1 and the two bytes \<open>Hi\<close>.
\<close>

definition ex_leaf :: BTreeNode where
  "ex_leaf = \<lparr> page = \<lparr> npage = 2, data = replicate 64 0 \<rparr>,
               node_type = PGTYPE_TABLE_LEAF,
               free_offset = 8,
               n_cells = 0,
               cells_offset = 64,
               right_page = 0,
               celloffset_array = 8 \<rparr>"

definition ex_row :: BTreeCell where
  "ex_row = \<lparr> cell_type = PGTYPE_TABLE_LEAF,
              key = 1,
              tableInternal_child_page = 0,
              tableLeaf_data_size = 2,
              tableLeaf_data = [0x48, 0x69],
              indexInternal_keyPk = 0,
              indexInternal_child_page = 0,
              indexLeaf_keyPk = 0 \<rparr>"

text \<open>
  A table internal cell with key 1 and child page 2. In C the members of \<^verbatim>\<open>fields\<close>
  share their storage, so the slots that start it hold the same value 2.
\<close>

definition ex_table_internal_cell :: BTreeCell where
  "ex_table_internal_cell =
     \<lparr> cell_type = PGTYPE_TABLE_INTERNAL,
       key = 1,
       tableInternal_child_page = 2,
       tableLeaf_data_size = 2,
       tableLeaf_data = [],
       indexInternal_keyPk = 2,
       indexInternal_child_page = 0,
       indexLeaf_keyPk = 2 \<rparr>"

text \<open>A table internal node on page 2 with right page 7, and no cells.\<close>

definition ex_internal :: BTreeNode where
  "ex_internal = \<lparr> page = \<lparr> npage = 2, data = replicate 64 0 \<rparr>,
                   node_type = PGTYPE_TABLE_INTERNAL,
                   free_offset = 12,
                   n_cells = 0,
                   cells_offset = 64,
                   right_page = 7,
                   celloffset_array = 12 \<rparr>"

text \<open>
  A pager on an empty file with 64-byte pages, three of them allocated, and the B-tree
  file in which page 2 has been initialised as an empty table leaf.
\<close>

definition ex_pager :: Pager where
  "ex_pager = \<lparr> contents = [], page_size = 64, n_pages = 3, held = 0 \<rparr>"

definition ex_empty_db :: BTree where
  "ex_empty_db =
     snd (chidb_Btree_initEmptyNode chidb_layout \<lparr> pager = ex_pager \<rparr> 2 PGTYPE_TABLE_LEAF)"

text \<open>A file header with the canonical values and page size 1024.\<close>

definition ex_header :: "uint8_t list" where
  "ex_header =
     SQLite_format_3 @ [4, 0, 1, 1, 0, 64, 32, 32] @ replicate 20 0 @ [0, 0, 0, 1]
       @ [0, 0, 0x4E, 0x20] @ [0, 0, 0, 0] @ [0, 0, 0, 1] @ replicate 40 0"

text \<open>
  Abbreviations for the proofs about \<^verbatim>\<open>chidb_Btree_open\<close>: the stores of the file header
  that \<^verbatim>\<open>chidb_Btree_open\<close> makes into page 1, as a function of the page's bytes; the
  page of a node after \<^verbatim>\<open>chidb_Btree_writeNode\<close> has stored the node's header in it; and
  the node that \<^verbatim>\<open>chidb_Btree_initEmptyNode\<close> builds for a table leaf on page 1 of a file
  with the default page size.
\<close>

definition file_header :: "uint8_t list \<Rightarrow> uint8_t list" where
  "file_header d = put4byte (put4byte (put4byte (put4byte (put4byte (put4byte (put4byte (put4byte (put4byte (put4byte
     ((put2byte (strncpy d 0 SQLite_format_3 16) 16 (word_of_nat DEFAULT_PAGE_SIZE))
        [18 := 1, 19 := 1, 20 := 0, 21 := 64, 22 := 32, 23 := 32])
     24 0) 32 0) 36 0) 40 0) 44 1) 48 20000) 52 0) 56 1) 60 0) 64 0"

definition header_stored :: "layout \<Rightarrow> BTreeNode \<Rightarrow> MemPage" where
  "header_stored L btn = page (snd (snd (chidb_Btree_writeNode L \<lparr> pager = chidb_Pager_open [] \<rparr> btn)))"

definition empty_leaf_1 :: "layout \<Rightarrow> BTreeNode" where
  "empty_leaf_1 L = \<lparr> page = \<lparr> npage = 1, data = replicate DEFAULT_PAGE_SIZE 0 \<rparr>,
       node_type = PGTYPE_TABLE_LEAF,
       free_offset = word_of_nat (CHIDB_FILE_HEADER_LEN + LEAFPG_CELLSOFFSET_OFFSET L),
       n_cells = 0,
       cells_offset = word_of_nat DEFAULT_PAGE_SIZE,
       right_page = 0,
       celloffset_array = CHIDB_FILE_HEADER_LEN + LEAFPG_CELLSOFFSET_OFFSET L \<rparr>"

text \<open>
  A file with 64-byte pages whose page 2 is a table leaf with one cell: key 1 with the
  two bytes \<open>Hi\<close>. \<open>ex_table_node\<close> is the node that page 2 loads as.
\<close>

definition ex_table_page :: "uint8_t list" where
  "ex_table_page =
     [0x0D, 0, 10, 0, 1, 0, 54, 0] @ [0, 54] @ replicate 44 0 @
     [0x80, 0x80, 0x80, 2, 0x80, 0x80, 0x80, 1, 0x48, 0x69]"

definition ex_table_db :: BTree where
  "ex_table_db =
     \<lparr> pager = \<lparr> contents = replicate 64 0 @ ex_table_page, page_size = 64, n_pages = 2, held = 0 \<rparr> \<rparr>"

definition ex_table_node :: BTreeNode where
  "ex_table_node = \<lparr> page = \<lparr> npage = 2, data = ex_table_page \<rparr>,
                     node_type = PGTYPE_TABLE_LEAF,
                     free_offset = 10,
                     n_cells = 1,
                     cells_offset = 54,
                     right_page = 0,
                     celloffset_array = 8 \<rparr>"

text \<open>
  A file with 128-byte pages whose page 2 is a table leaf with the keys 10, 20 and 30
  (one byte of data each: \<open>A\<close>, \<open>B\<close>, \<open>C\<close>) and whose page 3 is an index leaf with
  the entries (30, 10), (50, 20) and (70, 30), with the nodes these pages load as and
  the cells \<^verbatim>\<open>nodeBTCArray\<close> reads from them into elements that start as \<open>ex_row\<close>.
\<close>

definition ex_index_table_page :: "uint8_t list" where
  "ex_index_table_page =
     [0x0D, 0, 14, 0, 3, 0, 101, 0] @ [0, 119, 0, 110, 0, 101] @ replicate 87 0 @
     [0x80, 0x80, 0x80, 1, 0x80, 0x80, 0x80, 30, 0x43] @
     [0x80, 0x80, 0x80, 1, 0x80, 0x80, 0x80, 20, 0x42] @
     [0x80, 0x80, 0x80, 1, 0x80, 0x80, 0x80, 10, 0x41]"

definition ex_index_page :: "uint8_t list" where
  "ex_index_page =
     [0x0A, 0, 14, 0, 3, 0, 32, 0] @ [0, 106, 0, 74, 0, 32] @ replicate 18 0 @
     [0, 0, 0, 0, 0, 0, 0, 70, 0, 0, 0, 30] @ replicate 30 0 @
     [0, 0, 0, 0, 0, 0, 0, 50, 0, 0, 0, 20] @ replicate 20 0 @
     [0, 0, 0, 0, 0, 0, 0, 30, 0, 0, 0, 10] @ replicate 10 0"






text \<open>
  The cells and the empty nodes from which \<^verbatim>\<open>chidb_Btree_insertCell\<close> builds the pages
  above. The members of \<^verbatim>\<open>fields\<close> share their storage in C, so the slots that start
  it hold the same value.
\<close>

definition ex_table_cell :: "chidb_key_t \<Rightarrow> uint8_t list \<Rightarrow> BTreeCell" where
  "ex_table_cell k d =
     \<lparr> cell_type = PGTYPE_TABLE_LEAF,
       key = k,
       tableInternal_child_page = word_of_nat (length d),
       tableLeaf_data_size = word_of_nat (length d),
       tableLeaf_data = d,
       indexInternal_keyPk = word_of_nat (length d),
       indexInternal_child_page = 0,
       indexLeaf_keyPk = word_of_nat (length d) \<rparr>"

definition ex_index_cell :: "chidb_key_t \<Rightarrow> chidb_key_t \<Rightarrow> BTreeCell" where
  "ex_index_cell keyIdx keyPk =
     \<lparr> cell_type = PGTYPE_INDEX_LEAF,
       key = keyIdx,
       tableInternal_child_page = keyPk,
       tableLeaf_data_size = keyPk,
       tableLeaf_data = [],
       indexInternal_keyPk = keyPk,
       indexInternal_child_page = 0,
       indexLeaf_keyPk = keyPk \<rparr>"

definition ex_empty_table_leaf :: BTreeNode where
  "ex_empty_table_leaf = \<lparr> page = \<lparr> npage = 2, data = replicate 128 0 \<rparr>,
                           node_type = PGTYPE_TABLE_LEAF,
                           free_offset = 8,
                           n_cells = 0,
                           cells_offset = 128,
                           right_page = 0,
                           celloffset_array = 8 \<rparr>"

definition ex_empty_index_leaf :: BTreeNode where
  "ex_empty_index_leaf = \<lparr> page = \<lparr> npage = 3, data = replicate 128 0 \<rparr>,
                           node_type = PGTYPE_INDEX_LEAF,
                           free_offset = 8,
                           n_cells = 0,
                           cells_offset = 128,
                           right_page = 0,
                           celloffset_array = 8 \<rparr>"



text \<open>The ten bytes \<open>Hard Drive\<close>.\<close>

definition ex_hard_drive :: "uint8_t list" where
  "ex_hard_drive = map of_char ''Hard Drive''"

section \<open>Lemmas on byte buffers\<close>

lemma page_header_ok_chidb: "page_header_ok chidb_layout"
  by (simp add: page_header_ok_def page_header_fields_def chidb_layout_def sep_def)

lemma length_put2byte [simp]: "length (put2byte p i v) = length p"
  by (simp add: put2byte_def)

lemma length_put4byte [simp]: "length (put4byte p i v) = length p"
  by (simp add: put4byte_def)

lemma length_putVarint32 [simp]: "length (putVarint32 p i v) = length p"
  by (simp add: putVarint32_def)

lemma length_wr_bytes [simp]: "length (wr_bytes p i bs) = length p"
  by (induction bs arbitrary: p i) simp_all

lemma rd_update: "rd (p[i := v]) j = (if j = i \<and> i < length p then v else rd p j)"
  by (simp add: rd_def)

lemma rd_put2byte_other: "j < i \<or> i + 2 \<le> j \<Longrightarrow> rd (put2byte p i v) j = rd p j"
  by (auto simp: put2byte_def rd_update)

lemma rd_put4byte_other: "j < i \<or> i + 4 \<le> j \<Longrightarrow> rd (put4byte p i v) j = rd p j"
  by (auto simp: put4byte_def rd_update)


lemma rd_wr_bytes_other: "j < i \<or> i + length bs \<le> j \<Longrightarrow> rd (wr_bytes p i bs) j = rd p j"
  by (induction bs arbitrary: p i) (auto simp: rd_update)

lemma rd_wr_bytes_same: "i + length bs \<le> length p \<Longrightarrow> j < length bs \<Longrightarrow> rd (wr_bytes p i bs) (i + j) = bs ! j"
proof (induction bs arbitrary: p i j)
  case Nil
  then show ?case by simp
next
  case (Cons b bs)
  show ?case
  proof (cases j)
    case 0
    then show ?thesis using Cons.prems by (simp add: rd_wr_bytes_other rd_update)
  next
    case (Suc k)
    then show ?thesis using Cons.prems Cons.IH[of "Suc i" "p[i := b]" k] by simp
  qed
qed

lemma word16_bytes: "push_bit 8 (ucast (ucast (drop_bit 8 v) :: uint8_t)) OR ucast (ucast v :: uint8_t) = (v :: uint16_t)"
  by (rule bit_word_eqI) (auto simp: bit_simps)

lemma word32_bytes:
  "push_bit 24 (ucast (ucast (drop_bit 24 v) :: uint8_t)) OR push_bit 16 (ucast (ucast (drop_bit 16 v) :: uint8_t))
     OR push_bit 8 (ucast (ucast (drop_bit 8 v) :: uint8_t)) OR ucast (ucast v :: uint8_t) = (v :: uint32_t)"
  (is "?l = v")
proof (rule bit_word_eqI)
  fix n assume "n < LENGTH(32)"
  then consider "n < 8" | "8 \<le> n" "n < 16" | "16 \<le> n" "n < 24" | "24 \<le> n" "n < 32"
    by fastforce
  then show "bit ?l n \<longleftrightarrow> bit v n"
    by cases (auto simp: bit_simps)
qed

lemma get2byte_put2byte_same: "i + 2 \<le> length p \<Longrightarrow> get2byte (put2byte p i v) i = v"
  by (simp add: get2byte_def put2byte_def rd_update word16_bytes)

lemma get4byte_put4byte_same: "i + 4 \<le> length p \<Longrightarrow> get4byte (put4byte p i v) i = v"
  by (simp add: get4byte_def put4byte_def rd_update word32_bytes)


lemma get4byte_cong:
  "rd p i = rd q j \<Longrightarrow> rd p (i + 1) = rd q (j + 1) \<Longrightarrow> rd p (i + 2) = rd q (j + 2) \<Longrightarrow> rd p (i + 3) = rd q (j + 3)
   \<Longrightarrow> get4byte p i = get4byte q j"
  by (simp add: get4byte_def)
lemma get4byte_put4byte_other: "j + 4 \<le> i \<or> i + 4 \<le> j \<Longrightarrow> get4byte (put4byte p i v) j = get4byte p j"
  by (auto simp: get4byte_def rd_put4byte_other)


lemma magic_bytes: "SQLite_format_3 = [0x53,0x51,0x4C,0x69,0x74,0x65,0x20,0x66,0x6F,0x72,0x6D,0x61,0x74,0x20,0x33,0]"
  by (simp add: SQLite_format_3_def)

lemma rd_bytes_Suc: "rd_bytes p i (Suc n) = rd p i # rd_bytes p (Suc i) n"
  by (simp add: rd_bytes_def upt_conv_Cons map_Suc_upt[symmetric] del: upt_Suc)

lemma rd_bytes_0: "rd_bytes p i 0 = []"
  by (simp add: rd_bytes_def)

lemma strncmp_eq_0:
  "\<forall>j. Suc j < n \<longrightarrow> rd s2 (i + j) \<noteq> 0 \<Longrightarrow>
   strncmp s1 s2 i n = 0 \<longleftrightarrow> rd_bytes s1 i n = rd_bytes s2 i n"
proof (induction n arbitrary: i)
  case 0
  then show ?case by (simp add: rd_bytes_0)
next
  case (Suc n)
  have tl: "\<forall>j. Suc j < n \<longrightarrow> rd s2 (Suc i + j) \<noteq> 0"
    using Suc.prems by (metis Suc_mono add_Suc_shift)
  show ?case
  proof (cases "rd s1 i = rd s2 i")
    case False
    then have "uint (rd s1 i) \<noteq> uint (rd s2 i)" using word_uint_eq_iff by blast
    then show ?thesis using False by (simp add: rd_bytes_Suc)
  next
    case True
    show ?thesis
    proof (cases n)
      case 0
      then show ?thesis using True by (simp add: rd_bytes_Suc rd_bytes_0)
    next
      case (Suc k)
      then have "rd s2 i \<noteq> 0" using Suc.prems by (metis add.right_neutral Suc_less_eq zero_less_Suc)
      then show ?thesis using True Suc.IH[OF tl] by (simp add: rd_bytes_Suc)
    qed
  qed
qed

lemma rd_bytes_list: "n \<le> length p \<Longrightarrow> rd_bytes p 0 n = take n p"
  by (auto simp: rd_bytes_def rd_def list_eq_iff_nth_eq)

lemma all_less_list: "(\<forall>j<n. P j) \<longleftrightarrow> list_all P [0..<n]"
  by (auto simp: list_all_iff)

lemma magic_nonzero: "\<forall>j. Suc j < 16 \<longrightarrow> rd SQLite_format_3 (0 + j) \<noteq> 0"
proof -
  have "\<forall>j<15. rd SQLite_format_3 j \<noteq> 0"
    unfolding all_less_list magic_bytes by (simp add: upt_rec rd_def)
  then show ?thesis by simp
qed

lemma strncmp_magic: "strncmp buf SQLite_format_3 0 16 = 0 \<longleftrightarrow> rd_bytes buf 0 16 = SQLite_format_3"
  using strncmp_eq_0[OF magic_nonzero, of buf] rd_bytes_list[of 16 SQLite_format_3]
  by (simp add: magic_bytes)

lemma sep_sym: "sep a b \<Longrightarrow> sep b a"
  by (auto simp: sep_def)

lemma sep_shift [simp]: "sep (h + a, la) (h + b, lb) = sep (a, la) (b, lb)"
  by (auto simp: sep_def)

lemma rd_update_sep: "sep (i, Suc 0) (j, Suc 0) \<Longrightarrow> rd (p[i := v]) j = rd p j"
  by (auto simp: sep_def rd_update)

lemma rd_put2byte_sep: "sep (i, 2) (j, Suc 0) \<Longrightarrow> rd (put2byte p i v) j = rd p j"
  by (auto simp: sep_def rd_put2byte_other)

lemma rd_put4byte_sep: "sep (i, 4) (j, Suc 0) \<Longrightarrow> rd (put4byte p i v) j = rd p j"
  by (auto simp: sep_def rd_put4byte_other)

lemma get2byte_update_sep: "sep (i, Suc 0) (j, 2) \<Longrightarrow> get2byte (p[i := v]) j = get2byte p j"
  by (auto simp: sep_def get2byte_def rd_update)

lemma get2byte_put2byte_sep: "sep (i, 2) (j, 2) \<Longrightarrow> get2byte (put2byte p i v) j = get2byte p j"
  by (auto simp: sep_def get2byte_def rd_put2byte_other)

lemma get2byte_put4byte_sep: "sep (i, 4) (j, 2) \<Longrightarrow> get2byte (put4byte p i v) j = get2byte p j"
  by (auto simp: sep_def get2byte_def rd_put4byte_other)

lemma get4byte_update_sep: "sep (i, Suc 0) (j, 4) \<Longrightarrow> get4byte (p[i := v]) j = get4byte p j"
  by (auto simp: sep_def get4byte_def rd_update)

lemma get4byte_put2byte_sep: "sep (i, 2) (j, 4) \<Longrightarrow> get4byte (put2byte p i v) j = get4byte p j"
  by (auto simp: sep_def get4byte_def rd_put2byte_other)

lemmas frame_sep = rd_update_sep rd_put2byte_sep rd_put4byte_sep get2byte_update_sep get2byte_put2byte_sep
  get2byte_put4byte_sep get4byte_update_sep get4byte_put2byte_sep

lemma rd_update_same: "i < length p \<Longrightarrow> rd (p[i := v]) i = v"
  by (simp add: rd_update)

lemma page_header_okD:
  assumes "page_header_ok L"
  shows "sep (PGHEADER_PGTYPE_OFFSET L, Suc 0) (PGHEADER_ZERO_OFFSET L, Suc 0)"
    "sep (PGHEADER_PGTYPE_OFFSET L, Suc 0) (PGHEADER_FREE_OFFSET L, 2)"
    "sep (PGHEADER_PGTYPE_OFFSET L, Suc 0) (PGHEADER_NCELLS_OFFSET L, 2)"
    "sep (PGHEADER_PGTYPE_OFFSET L, Suc 0) (PGHEADER_CELL_OFFSET L, 2)"
    "sep (PGHEADER_PGTYPE_OFFSET L, Suc 0) (PGHEADER_RIGHTPG_OFFSET L, 4)"
    "sep (PGHEADER_ZERO_OFFSET L, Suc 0) (PGHEADER_FREE_OFFSET L, 2)"
    "sep (PGHEADER_ZERO_OFFSET L, Suc 0) (PGHEADER_NCELLS_OFFSET L, 2)"
    "sep (PGHEADER_ZERO_OFFSET L, Suc 0) (PGHEADER_CELL_OFFSET L, 2)"
    "sep (PGHEADER_ZERO_OFFSET L, Suc 0) (PGHEADER_RIGHTPG_OFFSET L, 4)"
    "sep (PGHEADER_FREE_OFFSET L, 2) (PGHEADER_NCELLS_OFFSET L, 2)"
    "sep (PGHEADER_FREE_OFFSET L, 2) (PGHEADER_CELL_OFFSET L, 2)"
    "sep (PGHEADER_FREE_OFFSET L, 2) (PGHEADER_RIGHTPG_OFFSET L, 4)"
    "sep (PGHEADER_NCELLS_OFFSET L, 2) (PGHEADER_CELL_OFFSET L, 2)"
    "sep (PGHEADER_NCELLS_OFFSET L, 2) (PGHEADER_RIGHTPG_OFFSET L, 4)"
    "sep (PGHEADER_CELL_OFFSET L, 2) (PGHEADER_RIGHTPG_OFFSET L, 4)"
  using assms by (simp_all add: page_header_ok_def page_header_fields_def)

lemma header_in_pageD:
  assumes "header_in_page L pg"
  shows "getHeaderOffset (npage pg) + PGHEADER_PGTYPE_OFFSET L < length (data pg)"
    "getHeaderOffset (npage pg) + PGHEADER_ZERO_OFFSET L < length (data pg)"
    "getHeaderOffset (npage pg) + PGHEADER_FREE_OFFSET L + 2 \<le> length (data pg)"
    "getHeaderOffset (npage pg) + PGHEADER_NCELLS_OFFSET L + 2 \<le> length (data pg)"
    "getHeaderOffset (npage pg) + PGHEADER_CELL_OFFSET L + 2 \<le> length (data pg)"
    "getHeaderOffset (npage pg) + PGHEADER_RIGHTPG_OFFSET L + 4 \<le> length (data pg)"
  using assms by (simp_all add: header_in_page_def page_header_fields_def)

section \<open>The file header\<close>

lemma strncmp_cong:
  "\<forall>j. i \<le> j \<and> j < i + n \<longrightarrow> rd s1 j = rd s1' j \<Longrightarrow> strncmp s1 s2 i n = strncmp s1' s2 i n"
  by (induction n arbitrary: i) auto

lemma verifyHeader_cong:
  assumes "\<forall>j. j < 16 \<or> (18 \<le> j \<and> j < 24) \<or> (32 \<le> j \<and> j < 40) \<or> (44 \<le> j \<and> j < 60) \<or> (64 \<le> j \<and> j < 68)
             \<longrightarrow> rd p j = rd q j"
  shows "verifyHeader p = verifyHeader q"
proof -
  have s: "strncmp p SQLite_format_3 0 16 = strncmp q SQLite_format_3 0 16"
    by (rule strncmp_cong) (use assms in simp)
  have g: "get4byte p 32 = get4byte q 32" "get4byte p 36 = get4byte q 36" "get4byte p 44 = get4byte q 44"
     "get4byte p 48 = get4byte q 48" "get4byte p 52 = get4byte q 52" "get4byte p 56 = get4byte q 56"
     "get4byte p 64 = get4byte q 64"
    by (rule get4byte_cong; use assms in simp)+
  have r: "rd p 18 = rd q 18" "rd p 19 = rd q 19" "rd p 20 = rd q 20" "rd p 21 = rd q 21" "rd p 22 = rd q 22" "rd p 23 = rd q 23"
    using assms by simp_all
  show ?thesis unfolding verifyHeader_def s g r ..
qed

lemma verifyHeader_iff:
  "verifyHeader buf = CHIDB_OK \<longleftrightarrow>
     rd_bytes buf 0 16 = SQLite_format_3 \<and> rd buf 18 = 1 \<and> rd buf 19 = 1 \<and> rd buf 20 = 0 \<and>
     rd buf 21 = 64 \<and> rd buf 22 = 32 \<and> rd buf 23 = 32 \<and>
     get4byte buf 32 = 0 \<and> get4byte buf 36 = 0 \<and> get4byte buf 52 = 0 \<and> get4byte buf 64 = 0 \<and>
     get4byte buf 44 = 1 \<and> get4byte buf 56 = 1 \<and> get4byte buf 48 = 20000"
  unfolding verifyHeader_def Let_def strncmp_magic by auto

lemma verifyHeader_cases: "verifyHeader buf = CHIDB_OK \<or> verifyHeader buf = CHIDB_ECORRUPTHEADER"
  by (simp add: verifyHeader_def Let_def)

lemma verifyHeader_unchecked:
  "verifyHeader (put4byte (put4byte (put4byte buf 24 a) 40 b) 60 c) = verifyHeader buf"
  by (rule verifyHeader_cong) (auto simp: rd_put4byte_other)

lemma open_corrupt:
  "100 \<le> length f \<Longrightarrow> verifyHeader (take 100 f) \<noteq> CHIDB_OK \<Longrightarrow> chidb_Btree_open L f = (CHIDB_ECORRUPTHEADER, None)"
  by (simp add: chidb_Btree_open_def chidb_Pager_open_def chidb_Pager_readHeader_def)

lemma rd_bytes_nth: "j < n \<Longrightarrow> rd_bytes p i n ! j = rd p (i + j)"
  by (simp add: rd_bytes_def)

lemma verifyHeader_magic_flip:
  assumes "verifyHeader buf = CHIDB_OK" "i < 16" "i < length buf" "b \<noteq> buf ! i"
  shows "verifyHeader (buf[i := b]) = CHIDB_ECORRUPTHEADER"
proof -
  have "rd_bytes buf 0 16 = SQLite_format_3" using assms(1) by (simp add: verifyHeader_iff)
  then have "rd_bytes (buf[i := b]) 0 16 ! i \<noteq> SQLite_format_3 ! i"
    using assms(2-4) rd_bytes_nth[of i 16 buf 0] rd_bytes_nth[of i 16 "buf[i := b]" 0]
    by (simp add: rd_update) (simp add: rd_def)
  then have "rd_bytes (buf[i := b]) 0 16 \<noteq> SQLite_format_3" by metis
  then have "verifyHeader (buf[i := b]) \<noteq> CHIDB_OK" by (simp add: verifyHeader_iff)
  then show ?thesis using verifyHeader_cases by blast
qed

text \<open>
  C7: \<^verbatim>\<open>verifyHeader\<close> returns \<^verbatim>\<open>CHIDB_OK\<close> exactly when bytes 0 to 15 are the magic
  string with its terminating zero, bytes 18 and 19 are 1, byte 20 is 0, byte 21 is 64,
  bytes 22 and 23 are 32, and the big-endian words at 32, 36, 52 and 64 are 0, at 44 and
  56 are 1 and at 48 is 20000; every other result is \<^verbatim>\<open>CHIDB_ECORRUPTHEADER\<close>. The
  words at offsets 24, 40 and 60 do not affect the result. Changing one byte of the
  magic of an accepted header gives \<^verbatim>\<open>CHIDB_ECORRUPTHEADER\<close>, and
  \<^verbatim>\<open>chidb_Btree_open\<close> returns that code for a file whose header is read and not
  accepted.
\<close>

theorem verifyHeader_canonical:
  "(verifyHeader buf = CHIDB_OK \<longleftrightarrow>
      rd_bytes buf 0 16 = SQLite_format_3 \<and> rd buf 18 = 1 \<and> rd buf 19 = 1 \<and> rd buf 20 = 0 \<and>
      rd buf 21 = 64 \<and> rd buf 22 = 32 \<and> rd buf 23 = 32 \<and>
      get4byte buf 32 = 0 \<and> get4byte buf 36 = 0 \<and> get4byte buf 52 = 0 \<and> get4byte buf 64 = 0 \<and>
      get4byte buf 44 = 1 \<and> get4byte buf 56 = 1 \<and> get4byte buf 48 = 20000) \<and>
   (verifyHeader buf \<noteq> CHIDB_OK \<longrightarrow> verifyHeader buf = CHIDB_ECORRUPTHEADER) \<and>
   verifyHeader (put4byte (put4byte (put4byte buf 24 a) 40 b) 60 c) = verifyHeader buf \<and>
   (verifyHeader buf = CHIDB_OK \<and> i < 16 \<and> i < length buf \<and> v \<noteq> buf ! i \<longrightarrow>
      verifyHeader (buf[i := v]) = CHIDB_ECORRUPTHEADER) \<and>
   (100 \<le> length f \<and> verifyHeader (take 100 f) \<noteq> CHIDB_OK \<longrightarrow>
      chidb_Btree_open L f = (CHIDB_ECORRUPTHEADER, None))"
  using verifyHeader_iff [of buf] verifyHeader_cases [of buf] verifyHeader_unchecked [of buf a b c]
    verifyHeader_magic_flip [of buf i v] open_corrupt [of f L]
  by blast

theorem verifyHeader_canonical_witness:
  "verifyHeader ex_header = CHIDB_OK \<and> (0::nat) < 16 \<and> 0 < length ex_header \<and> 0x73 \<noteq> ex_header ! 0 \<and>
   verifyHeader (ex_header[0 := 0x73]) = CHIDB_ECORRUPTHEADER \<and>
   100 \<le> length (ex_header[0 := 0x73]) \<and>
   verifyHeader (take 100 (ex_header[0 := 0x73])) \<noteq> CHIDB_OK \<and>
   chidb_Btree_open chidb_layout (ex_header[0 := 0x73]) = (CHIDB_ECORRUPTHEADER, None) \<and>
   verifyHeader (put4byte (put4byte (put4byte ex_header 24 1) 40 2) 60 3) = CHIDB_OK"
proof -
  have l: "length ex_header = 100" by (simp add: ex_header_def SQLite_format_3_def)
  have h1: "verifyHeader ex_header = CHIDB_OK" by code_simp
  have h2: "(0::nat) < 16" by simp
  have h3: "0 < length ex_header" by (simp add: l)
  have h4: "0x73 \<noteq> ex_header ! 0" by (simp add: ex_header_def SQLite_format_3_def)
  have c1: "verifyHeader (ex_header[0 := 0x73]) = CHIDB_ECORRUPTHEADER"
    using verifyHeader_canonical [of ex_header 1 2 3 0 "0x73" "[]" chidb_layout] h1 h2 h3 h4 by blast
  have h5: "100 \<le> length (ex_header[0 := 0x73])" by (simp add: l)
  have h6: "verifyHeader (take 100 (ex_header[0 := 0x73])) \<noteq> CHIDB_OK" using c1 by (simp add: l)
  have c2: "chidb_Btree_open chidb_layout (ex_header[0 := 0x73]) = (CHIDB_ECORRUPTHEADER, None)"
    using verifyHeader_canonical [of ex_header 1 2 3 0 "0x73" "ex_header[0 := 0x73]" chidb_layout] h5 h6 by blast
  have c3: "verifyHeader (put4byte (put4byte (put4byte ex_header 24 1) 40 2) 60 3) = CHIDB_OK"
    using verifyHeader_canonical [of ex_header 1 2 3 0 "0x73" "[]" chidb_layout] h1 by simp
  show ?thesis using h1 h2 h3 h4 c1 h5 h6 c2 c3 by blast
qed

section \<open>Storing and loading a node\<close>

lemma writeNode_result:
  "chidb_Btree_writeNode L bt btn = (r, bt', btn') \<Longrightarrow>
     r = CHIDB_OK \<and> npage (page btn') = npage (page btn) \<and> length (data (page btn')) = length (data (page btn))
     \<and> bt' = bt\<lparr> pager := chidb_Pager_writePage (pager bt) (page btn') \<rparr> \<and> btn' = btn\<lparr> page := page btn' \<rparr>"
  by (auto simp: chidb_Btree_writeNode_def Let_def)

lemma writeNode_packBTN:
  assumes ok: "page_header_ok L" and fit: "header_in_page L (page btn)"
    and w: "chidb_Btree_writeNode L bt btn = (r, bt', btn')"
  shows "node_type (packBTN L m (page btn')) = node_type btn"
    and "free_offset (packBTN L m (page btn')) = free_offset btn"
    and "n_cells (packBTN L m (page btn')) = n_cells btn"
    and "cells_offset (packBTN L m (page btn')) = cells_offset btn"
    and "node_type btn AND FLAG_LEAF = 0 \<Longrightarrow> right_page (packBTN L m (page btn')) = right_page btn"
    and "node_type btn AND FLAG_LEAF \<noteq> 0 \<Longrightarrow> right_page (packBTN L m (page btn')) = right_page m"
    and "rd (data (page btn')) (getHeaderOffset (npage (page btn)) + PGHEADER_ZERO_OFFSET L) = 0"
proof -
  note s = page_header_okD[OF ok] page_header_okD[OF ok, THEN sep_sym]
  note f = header_in_pageD[OF fit]
  have d: "page btn' = (page btn)\<lparr> data :=
     (let head = getHeaderOffset (npage (page btn));
          d1 = (data (page btn))[head + PGHEADER_PGTYPE_OFFSET L := node_type btn];
          d2 = d1[head + PGHEADER_ZERO_OFFSET L := 0];
          d3 = put2byte d2 (head + PGHEADER_FREE_OFFSET L) (free_offset btn);
          d4 = put2byte d3 (head + PGHEADER_NCELLS_OFFSET L) (n_cells btn);
          d5 = put2byte d4 (head + PGHEADER_CELL_OFFSET L) (cells_offset btn)
      in if node_type btn AND FLAG_LEAF = 0
                then put4byte d5 (head + PGHEADER_RIGHTPG_OFFSET L) (right_page btn)
                else d5) \<rparr>"
    using w by (auto simp: chidb_Btree_writeNode_def Let_def)
  show t: "node_type (packBTN L m (page btn')) = node_type btn"
    using f unfolding d by (simp add: packBTN_def Let_def frame_sep s f rd_update_same)
  show "free_offset (packBTN L m (page btn')) = free_offset btn"
    using f unfolding d by (simp add: packBTN_def Let_def frame_sep s f get2byte_put2byte_same)
  show "n_cells (packBTN L m (page btn')) = n_cells btn"
    using f unfolding d by (simp add: packBTN_def Let_def frame_sep s f get2byte_put2byte_same)
  show "cells_offset (packBTN L m (page btn')) = cells_offset btn"
    using f unfolding d by (simp add: packBTN_def Let_def frame_sep s f get2byte_put2byte_same)
  show "right_page (packBTN L m (page btn')) = right_page btn" if "node_type btn AND FLAG_LEAF = 0"
    using t that f unfolding d by (simp add: packBTN_def Let_def frame_sep s f get4byte_put4byte_same rd_update_same)
  show "right_page (packBTN L m (page btn')) = right_page m" if "node_type btn AND FLAG_LEAF \<noteq> 0"
    using t that f unfolding d by (simp add: packBTN_def Let_def frame_sep s f rd_update_same)
  show "rd (data (page btn')) (getHeaderOffset (npage (page btn)) + PGHEADER_ZERO_OFFSET L) = 0"
    using f unfolding d by (simp add: Let_def frame_sep s f rd_update_same)
qed

lemma rd_bytes_wr_bytes_same:
  "i + length bs \<le> length p \<Longrightarrow> rd_bytes (wr_bytes p i bs) i (length bs) = bs"
  by (rule nth_equalityI) (simp_all add: rd_bytes_def rd_wr_bytes_same)

lemma rd_bytes_all: "length p = n \<Longrightarrow> rd_bytes p 0 n = p"
  using rd_bytes_list[of n p] by simp

lemma length_rd_bytes [simp]: "length (rd_bytes p i n) = n"
  by (simp add: rd_bytes_def)

lemma pager_read_after_write:
  assumes "npage pg \<noteq> 0" "unat (npage pg) \<le> n_pages p" "length (data pg) = page_size p"
  shows "chidb_Pager_readPage (chidb_Pager_writePage p pg) (npage pg) =
           (CHIDB_OK, (chidb_Pager_writePage p pg)\<lparr> held := held p + 1 \<rparr>, Some pg)"
proof -
  define off where "off = (unat (npage pg) - Suc 0) * page_size p"
  define f where "f = contents p @ replicate (off + page_size p - length (contents p)) 0"
  define bs where "bs = rd_bytes (data pg) 0 (page_size p)"
  have bs: "bs = data pg" unfolding bs_def using assms(3) by (rule rd_bytes_all)
  have lb: "length bs = page_size p" by (simp add: bs_def)
  have "off + length bs \<le> length f" by (simp add: f_def lb)
  then have "rd_bytes (wr_bytes f off bs) off (length bs) = bs" by (rule rd_bytes_wr_bytes_same)
  then have r: "rd_bytes (wr_bytes f off bs) off (page_size p) = data pg" using bs lb by simp
  have w: "chidb_Pager_writePage p pg = p\<lparr> contents := wr_bytes f off bs \<rparr>"
    by (simp add: chidb_Pager_writePage_def Let_def off_def f_def bs_def)
  have "\<lparr> npage = npage pg, data = data pg \<rparr> = pg" by simp
  then show ?thesis unfolding w using assms(1,2) r
    by (simp add: chidb_Pager_readPage_def off_def[symmetric])
qed

text \<open>
  C9: for every node (of any type, on page 1 or elsewhere) whose header lies in its
  page, under a layout whose header fields do not overlap, \<^verbatim>\<open>chidb_Btree_writeNode\<close>
  returns \<^verbatim>\<open>CHIDB_OK\<close> and \<^verbatim>\<open>packBTN\<close> on the written page gives the type,
  \<^verbatim>\<open>free_offset\<close>, \<^verbatim>\<open>n_cells\<close> and \<^verbatim>\<open>cells_offset\<close> of the node, and its
  \<^verbatim>\<open>right_page\<close> when the node is internal; the reserved byte of the page is zero. When
  the page is a page of the pager, \<^verbatim>\<open>chidb_Btree_getNodeByPage\<close> on the written file
  loads that same node.
\<close>

theorem writeNode_then_packBTN:
  assumes "page_header_ok L" and "header_in_page L (page btn)"
  shows "\<exists>bt' btn'.
           chidb_Btree_writeNode L bt btn = (CHIDB_OK, bt', btn') \<and>
           node_type (packBTN L m (page btn')) = node_type btn \<and>
           free_offset (packBTN L m (page btn')) = free_offset btn \<and>
           n_cells (packBTN L m (page btn')) = n_cells btn \<and>
           cells_offset (packBTN L m (page btn')) = cells_offset btn \<and>
           (node_type btn AND FLAG_LEAF = 0 \<longrightarrow>
              right_page (packBTN L m (page btn')) = right_page btn) \<and>
           rd (data (page btn')) (getHeaderOffset (npage (page btn)) + PGHEADER_ZERO_OFFSET L) = 0 \<and>
           (npage (page btn) \<noteq> 0 \<and> unat (npage (page btn)) \<le> n_pages (pager bt) \<and>
            length (data (page btn)) = page_size (pager bt) \<longrightarrow>
              (\<exists>bt''. chidb_Btree_getNodeByPage L m bt' (npage (page btn)) =
                        (CHIDB_OK, bt'', Some (packBTN L m (page btn')))))"
proof -
  obtain r bt' btn' where w: "chidb_Btree_writeNode L bt btn = (r, bt', btn')"
    by (cases "chidb_Btree_writeNode L bt btn") auto
  note res = writeNode_result [OF w]
  note rt = writeNode_packBTN [OF assms w]
  have "\<exists>bt''. chidb_Btree_getNodeByPage L m bt' (npage (page btn)) =
                 (CHIDB_OK, bt'', Some (packBTN L m (page btn')))"
    if "npage (page btn) \<noteq> 0" "unat (npage (page btn)) \<le> n_pages (pager bt)"
      "length (data (page btn)) = page_size (pager bt)"
  proof -
    have "chidb_Pager_readPage (chidb_Pager_writePage (pager bt) (page btn')) (npage (page btn')) =
            (CHIDB_OK, (chidb_Pager_writePage (pager bt) (page btn'))\<lparr> held := held (pager bt) + 1 \<rparr>,
             Some (page btn'))"
      by (rule pager_read_after_write) (use that res in simp_all)
    moreover have "pager bt' = chidb_Pager_writePage (pager bt) (page btn')"
      using res by (cases bt) (simp add: BTree.defs)
    ultimately show ?thesis using res by (simp add: chidb_Btree_getNodeByPage_def)
  qed
  then show ?thesis using w res rt(1-5) rt(7) by blast
qed

theorem writeNode_then_packBTN_witness:
  "page_header_ok chidb_layout \<and> header_in_page chidb_layout (page ex_internal) \<and>
   node_type ex_internal AND FLAG_LEAF = 0 \<and>
   npage (page ex_internal) \<noteq> 0 \<and> unat (npage (page ex_internal)) \<le> n_pages (pager \<lparr> pager = ex_pager \<rparr>) \<and>
   length (data (page ex_internal)) = page_size (pager \<lparr> pager = ex_pager \<rparr>) \<and>
   (\<exists>bt' btn'.
      chidb_Btree_writeNode chidb_layout \<lparr> pager = ex_pager \<rparr> ex_internal = (CHIDB_OK, bt', btn') \<and>
      node_type (packBTN chidb_layout ex_leaf (page btn')) = PGTYPE_TABLE_INTERNAL \<and>
      free_offset (packBTN chidb_layout ex_leaf (page btn')) = 12 \<and>
      n_cells (packBTN chidb_layout ex_leaf (page btn')) = 0 \<and>
      cells_offset (packBTN chidb_layout ex_leaf (page btn')) = 64 \<and>
      right_page (packBTN chidb_layout ex_leaf (page btn')) = 7 \<and>
      (\<exists>bt''. chidb_Btree_getNodeByPage chidb_layout ex_leaf bt' 2 =
                (CHIDB_OK, bt'', Some (packBTN chidb_layout ex_leaf (page btn')))))"
proof -
  have h1: "page_header_ok chidb_layout"
    by (simp add: page_header_ok_def page_header_fields_def chidb_layout_def sep_def)
  have h2: "header_in_page chidb_layout (page ex_internal)"
    by (simp add: header_in_page_def page_header_fields_def chidb_layout_def ex_internal_def
        getHeaderOffset_def)
  have h3: "node_type ex_internal AND FLAG_LEAF = 0"
    by (simp add: ex_internal_def PGTYPE_TABLE_INTERNAL_def FLAG_LEAF_def)
  have h4: "npage (page ex_internal) \<noteq> 0" by (simp add: ex_internal_def)
  have h5: "unat (npage (page ex_internal)) \<le> n_pages (pager \<lparr> pager = ex_pager \<rparr>)"
    by (simp add: ex_internal_def ex_pager_def)
  have h6: "length (data (page ex_internal)) = page_size (pager \<lparr> pager = ex_pager \<rparr>)"
    by (simp add: ex_internal_def ex_pager_def)
  have f: "node_type ex_internal = PGTYPE_TABLE_INTERNAL" "free_offset ex_internal = 12"
    "n_cells ex_internal = 0" "cells_offset ex_internal = 64" "right_page ex_internal = 7"
    "npage (page ex_internal) = 2"
    by (simp_all add: ex_internal_def)
  show ?thesis
    using h1 h2 h3 h4 h5 h6
      writeNode_then_packBTN [OF h1 h2, of "\<lparr> pager = ex_pager \<rparr>" ex_leaf]
    unfolding f by blast
qed

section \<open>Serialising a cell\<close>






























section \<open>Inserting a cell into a node\<close>

lemma length_unpackBTC [simp]: "length (unpackBTC L p h c) = length p"
  by (simp add: unpackBTC_def)


lemma length_memmove [simp]: "length (memmove p dst src n) = length p"
  by (simp add: memmove_def)










text \<open>
  C6: for every node, every cell and every position \<open>ncell\<close> greater than the node's
  \<open>n_cells\<close>, \<^verbatim>\<open>chidb_Btree_insertCell\<close> returns \<^verbatim>\<open>CHIDB_ECELLNO\<close> and the node is
  as before: its fields and the bytes of its page are unchanged.
\<close>

theorem insertCell_beyond_n_cells:
  "n_cells btn < ncell \<Longrightarrow> chidb_Btree_insertCell L btn ncell cell = (CHIDB_ECELLNO, btn)"
  by (simp add: chidb_Btree_insertCell_def)

theorem insertCell_beyond_n_cells_witness:
  "n_cells ex_leaf < n_cells ex_leaf + 1 \<and>
   chidb_Btree_insertCell chidb_layout ex_leaf (n_cells ex_leaf + 1) ex_row = (CHIDB_ECELLNO, ex_leaf)"
proof -
  have h: "n_cells ex_leaf < n_cells ex_leaf + 1" by (simp add: ex_leaf_def)
  show ?thesis using h insertCell_beyond_n_cells [OF h] by simp
qed

section \<open>Cell sizes\<close>

text \<open>
  C4: \<^verbatim>\<open>getCellSize\<close> should give a table internal cell a fixed size. On the table
  internal cell with key 1 and child page 2 the code returns \<^verbatim>\<open>TABLEINTCELL_SIZE\<close> plus
  2: its test \<^verbatim>\<open>type & (FLAG_LEAF | FLAG_TABLE)\<close> holds for every type but index
  internal, so the value read through \<^verbatim>\<open>fields.tableLeaf.data_size\<close> is added for
  table internal (and index leaf) cells too.
\<close>

theorem getCellSize_table_internal_adds_data_size:
  "getCellSize L ex_table_internal_cell = TABLEINTCELL_SIZE L + 2"
  by (simp add: getCellSize_def ex_table_internal_cell_def pgtypeMap_def tab_at_def
      PGTYPE_TABLE_INTERNAL_def FLAG_LEAF_def FLAG_TABLE_def)

section \<open>Opening an empty file\<close>

lemma rd_bytes_Nil: "rd_bytes [] i n = replicate n 0"
  by (simp add: rd_bytes_def rd_def map_replicate_const)

lemma rd_nth: "i < length p \<Longrightarrow> rd p i = p ! i"
  by (simp add: rd_def)

lemma wr_bytes_all: "length bs = length p \<Longrightarrow> wr_bytes p 0 bs = bs"
proof (rule nth_equalityI)
  show "length bs = length p \<Longrightarrow> length (wr_bytes p 0 bs) = length bs" by simp
  fix i assume a: "length bs = length p" "i < length (wr_bytes p 0 bs)"
  then have "rd (wr_bytes p 0 bs) (0 + i) = bs ! i" by (intro rd_wr_bytes_same) simp_all
  then show "wr_bytes p 0 bs ! i = bs ! i" using a by (simp add: rd_nth)
qed

lemma writePage_first:
  assumes "npage pg = 1" "length (data pg) = page_size p" "length (contents p) \<le> page_size p"
  shows "chidb_Pager_writePage p pg = p\<lparr> contents := data pg \<rparr>"
proof -
  have "rd_bytes (data pg) 0 (page_size p) = data pg" using assms(2) by (rule rd_bytes_all)
  moreover have "wr_bytes (contents p @ replicate (page_size p - length (contents p)) 0) 0 (data pg) = data pg"
    by (rule wr_bytes_all) (use assms in simp)
  ultimately show ?thesis using assms(1) by (simp add: chidb_Pager_writePage_def Let_def)
qed

lemma readPage_first:
  assumes "0 < n_pages p" "length (contents p) = page_size p"
  shows "chidb_Pager_readPage p 1 = (CHIDB_OK, p\<lparr> held := held p + 1 \<rparr>, Some \<lparr> npage = 1, data = contents p \<rparr>)"
proof -
  have "rd_bytes (contents p) 0 (page_size p) = contents p" using assms(2) by (rule rd_bytes_all)
  then show ?thesis using assms(1) by (simp add: chidb_Pager_readPage_def)
qed

lemma getCellOffsetOffset_leaf: "getCellOffsetOffset L PGTYPE_TABLE_LEAF = LEAFPG_CELLSOFFSET_OFFSET L"
  by (simp add: getCellOffsetOffset_def pgtypeMap_def PGTYPE_TABLE_LEAF_def tab_at_def)

lemma packBTN_cong:
  assumes "\<forall>j \<ge> getHeaderOffset n. rd d j = rd d' j"
  shows "node_type (packBTN L m \<lparr> npage = n, data = d \<rparr>) = node_type (packBTN L m \<lparr> npage = n, data = d' \<rparr>)"
    and "free_offset (packBTN L m \<lparr> npage = n, data = d \<rparr>) = free_offset (packBTN L m \<lparr> npage = n, data = d' \<rparr>)"
    and "n_cells (packBTN L m \<lparr> npage = n, data = d \<rparr>) = n_cells (packBTN L m \<lparr> npage = n, data = d' \<rparr>)"
    and "cells_offset (packBTN L m \<lparr> npage = n, data = d \<rparr>) = cells_offset (packBTN L m \<lparr> npage = n, data = d' \<rparr>)"
  using assms by (simp_all add: packBTN_def Let_def get2byte_def)

lemma length_strncpy [simp]: "length (strncpy p i s n) = length p"
  by (simp add: strncpy_def Let_def)

lemma length_hdr [simp]: "length (file_header d) = length d"
  by (simp add: file_header_def)

lemma strncpy_magic:
  "strncpy d 0 SQLite_format_3 16 = wr_bytes d 0 SQLite_format_3"
  by (simp add: strncpy_def magic_bytes)

lemma length_magic [simp]: "length SQLite_format_3 = 16"
  by (simp add: SQLite_format_3_def)

lemma rd_hdr_high: "68 \<le> j \<Longrightarrow> rd (file_header d) j = rd d j"
  by (simp add: file_header_def rd_put4byte_other rd_update rd_put2byte_other strncpy_magic rd_wr_bytes_other)

lemma rd_hdr_magic: "1024 \<le> length d \<Longrightarrow> rd_bytes (file_header d) 0 16 = SQLite_format_3"
proof (rule nth_equalityI)
  show "length (rd_bytes (file_header d) 0 16) = length SQLite_format_3" by simp
  fix i assume "1024 \<le> length d" "i < length (rd_bytes (file_header d) 0 16)"
  then have i: "i < 16" and l: "0 + length SQLite_format_3 \<le> length d" by simp_all
  have "rd (file_header d) i = rd (wr_bytes d 0 SQLite_format_3) (0 + i)"
    using i by (simp add: file_header_def rd_put4byte_other rd_update rd_put2byte_other strncpy_magic)
  also have "\<dots> = SQLite_format_3 ! i" using l i by (intro rd_wr_bytes_same) simp_all
  finally show "rd_bytes (file_header d) 0 16 ! i = SQLite_format_3 ! i" using i by (simp add: rd_bytes_nth)
qed

lemma rd_hdr_bytes:
  assumes "1024 \<le> length d"
  shows "rd (file_header d) 16 = 4" "rd (file_header d) 17 = 0" "rd (file_header d) 18 = 1" "rd (file_header d) 19 = 1" "rd (file_header d) 20 = 0"
    "rd (file_header d) 21 = 64" "rd (file_header d) 22 = 32" "rd (file_header d) 23 = 32"
  using assms by (simp_all add: file_header_def rd_put4byte_other rd_update put2byte_def DEFAULT_PAGE_SIZE_def)

lemma get4byte_hdr:
  assumes "1024 \<le> length d"
  shows "get4byte (file_header d) 32 = 0" "get4byte (file_header d) 36 = 0" "get4byte (file_header d) 44 = 1" "get4byte (file_header d) 48 = 20000"
    "get4byte (file_header d) 52 = 0" "get4byte (file_header d) 56 = 1" "get4byte (file_header d) 64 = 0"
  using assms by (simp_all add: file_header_def get4byte_put4byte_other get4byte_put4byte_same)

lemma verifyHeader_hdr: "1024 \<le> length d \<Longrightarrow> verifyHeader (take 100 (file_header d)) = CHIDB_OK"
proof -
  assume l: "1024 \<le> length d"
  have "verifyHeader (take 100 (file_header d)) = verifyHeader (file_header d)"
    by (rule verifyHeader_cong) (use l in \<open>auto simp: rd_def\<close>)
  also have "\<dots> = CHIDB_OK"
    using rd_hdr_magic[OF l] rd_hdr_bytes[OF l] get4byte_hdr[OF l] by (simp add: verifyHeader_iff)
  finally show ?thesis .
qed

lemma writeNode_eq:
  "chidb_Btree_writeNode L bt btn =
     (CHIDB_OK, bt\<lparr> pager := chidb_Pager_writePage (pager bt) (header_stored L btn) \<rparr>,
      btn\<lparr> page := header_stored L btn \<rparr>)"
  by (simp add: chidb_Btree_writeNode_def header_stored_def Let_def)

lemma header_stored_simps [simp]:
  "npage (header_stored L btn) = npage (page btn)"
  "length (data (header_stored L btn)) = length (data (page btn))"
  by (simp_all add: chidb_Btree_writeNode_def header_stored_def Let_def)

lemma open_empty_file:
  "chidb_Btree_open L [] =
     (CHIDB_OK, Some \<lparr> pager = \<lparr> contents = file_header (data (header_stored L (empty_leaf_1 L))),
                                  page_size = DEFAULT_PAGE_SIZE, n_pages = 1, held = 0 \<rparr> \<rparr>)"
proof -
  define P0 where "P0 = \<lparr> contents = [], page_size = DEFAULT_PAGE_SIZE, n_pages = 1, held = 0 \<rparr>"
  define S where "S = header_stored L (empty_leaf_1 L)"
  have S: "npage S = 1" "length (data S) = DEFAULT_PAGE_SIZE"
    by (simp_all add: S_def empty_leaf_1_def)
  have r0: "chidb_Pager_readPage P0 1 =
      (CHIDB_OK, P0\<lparr> held := Suc 0 \<rparr>, Some \<lparr> npage = 1, data = replicate DEFAULT_PAGE_SIZE 0 \<rparr>)"
    by (simp add: chidb_Pager_readPage_def P0_def rd_bytes_Nil)
  have w1: "chidb_Pager_writePage (P0\<lparr> held := Suc 0 \<rparr>) S = P0\<lparr> held := 1, contents := data S \<rparr>"
    using writePage_first[of S "P0\<lparr> held := Suc 0 \<rparr>"] S by (simp add: P0_def)
  have btn_eq: "\<lparr> page = \<lparr> npage = 1, data = replicate DEFAULT_PAGE_SIZE 0 \<rparr>,
       node_type = PGTYPE_TABLE_LEAF,
       free_offset = word_of_nat (getHeaderOffset 1 + getCellOffsetOffset L PGTYPE_TABLE_LEAF),
       n_cells = 0,
       cells_offset = word_of_nat (page_size (P0\<lparr> held := Suc 0 \<rparr>)),
       right_page = 0,
       celloffset_array = getHeaderOffset 1 + getCellOffsetOffset L PGTYPE_TABLE_LEAF \<rparr> = empty_leaf_1 L"
    by (simp add: empty_leaf_1_def P0_def getHeaderOffset_def getCellOffsetOffset_leaf)
  have ini: "chidb_Btree_initEmptyNode L \<lparr> pager = P0 \<rparr> 1 PGTYPE_TABLE_LEAF =
      (CHIDB_OK, \<lparr> pager = P0\<lparr> contents := data S \<rparr> \<rparr>)"
    apply (simp only: chidb_Btree_initEmptyNode_def BTree.select_convs r0 prod.case option.case
        Let_def btn_eq writeNode_eq)
    apply (simp add: S_def[symmetric] w1 chidb_Pager_releaseMemPage_def)
    apply (simp add: P0_def)
    done
  have new: "chidb_Btree_newNode L \<lparr> pager = chidb_Pager_setPageSize (chidb_Pager_open []) DEFAULT_PAGE_SIZE \<rparr>
       PGTYPE_TABLE_LEAF = (CHIDB_OK, \<lparr> pager = P0\<lparr> contents := data S \<rparr> \<rparr>, 1)"
    using ini
    by (simp add: chidb_Btree_newNode_def chidb_Pager_allocatePage_def chidb_Pager_setPageSize_def
        chidb_Pager_open_def P0_def)
  have r1: "chidb_Pager_readPage (P0\<lparr> contents := data S \<rparr>) 1 =
      (CHIDB_OK, P0\<lparr> contents := data S, held := Suc 0 \<rparr>, Some S)"
    using readPage_first[of "P0\<lparr> contents := data S \<rparr>"] S by (simp add: P0_def)
  have w2: "chidb_Pager_writePage (P0\<lparr> contents := data S, held := Suc 0 \<rparr>) (S\<lparr> data := file_header (data S) \<rparr>) =
      P0\<lparr> contents := file_header (data S), held := Suc 0 \<rparr>"
    using writePage_first[of "S\<lparr> data := file_header (data S) \<rparr>" "P0\<lparr> contents := data S, held := Suc 0 \<rparr>"] S
    by (simp add: P0_def)
  show ?thesis
    unfolding chidb_Btree_open_def
    by (simp add: chidb_Pager_readHeader_def chidb_Pager_open_def[of "[]"] new[unfolded chidb_Pager_open_def] r1 Let_def
        file_header_def[symmetric] w2 chidb_Pager_releaseMemPage_def S_def[symmetric])
      (simp add: P0_def)
qed

lemma MemPage_eta: "\<lparr> npage = npage S, data = data S \<rparr> = (S :: MemPage)"
  by simp

lemma node_type_packBTN:
  "node_type (packBTN L m pg) = rd (data pg) (getHeaderOffset (npage pg) + PGHEADER_PGTYPE_OFFSET L)"
  by (simp add: packBTN_def Let_def)

lemma fresh_node:
  assumes ok: "page_header_ok L"
    and fit: "header_in_page L \<lparr> npage = 1, data = replicate DEFAULT_PAGE_SIZE 0 \<rparr>"
  defines "nd \<equiv> data (header_stored L (empty_leaf_1 L))"
  shows "node_type (packBTN L m \<lparr> npage = 1, data = file_header nd \<rparr>) = PGTYPE_TABLE_LEAF"
    and "n_cells (packBTN L m \<lparr> npage = 1, data = file_header nd \<rparr>) = 0"
    and "free_offset (packBTN L m \<lparr> npage = 1, data = file_header nd \<rparr>) =
           word_of_nat (CHIDB_FILE_HEADER_LEN + LEAFPG_CELLSOFFSET_OFFSET L)"
    and "cells_offset (packBTN L m \<lparr> npage = 1, data = file_header nd \<rparr>) = word_of_nat DEFAULT_PAGE_SIZE"
    and "rd (file_header nd) (CHIDB_FILE_HEADER_LEN + PGHEADER_PGTYPE_OFFSET L) = PGTYPE_TABLE_LEAF"
proof -
  define S where "S = header_stored L (empty_leaf_1 L)"
  have S: "npage S = 1" "data S = nd" by (simp_all add: S_def nd_def empty_leaf_1_def)
  have Seq: "\<lparr> npage = 1, data = nd \<rparr> = S" using MemPage_eta[of S] S by simp
  have fit': "header_in_page L (page (empty_leaf_1 L))" using fit by (simp add: empty_leaf_1_def)
  have w: "chidb_Btree_writeNode L \<lparr> pager = chidb_Pager_open [] \<rparr> (empty_leaf_1 L) =
      (CHIDB_OK, \<lparr> pager = chidb_Pager_open [] \<rparr>\<lparr> pager := chidb_Pager_writePage (pager \<lparr> pager = chidb_Pager_open [] \<rparr>) S \<rparr>,
       (empty_leaf_1 L)\<lparr> page := S \<rparr>)"
    unfolding S_def by (rule writeNode_eq)
  note rt = writeNode_packBTN[OF ok fit' w]
  have hi: "\<forall>j \<ge> getHeaderOffset 1. rd (file_header nd) j = rd nd j"
    by (simp add: getHeaderOffset_def CHIDB_FILE_HEADER_LEN_def rd_hdr_high)
  note cg = packBTN_cong[OF hi, of L m, unfolded Seq]
  show t: "node_type (packBTN L m \<lparr> npage = 1, data = file_header nd \<rparr>) = PGTYPE_TABLE_LEAF"
    using cg(1) rt(1)[of m] by (simp add: empty_leaf_1_def)
  show "n_cells (packBTN L m \<lparr> npage = 1, data = file_header nd \<rparr>) = 0"
    using cg(3) rt(3)[of m] by (simp add: empty_leaf_1_def)
  show "free_offset (packBTN L m \<lparr> npage = 1, data = file_header nd \<rparr>) =
           word_of_nat (CHIDB_FILE_HEADER_LEN + LEAFPG_CELLSOFFSET_OFFSET L)"
    using cg(2) rt(2)[of m] by (simp add: empty_leaf_1_def)
  show "cells_offset (packBTN L m \<lparr> npage = 1, data = file_header nd \<rparr>) = word_of_nat DEFAULT_PAGE_SIZE"
    using cg(4) rt(4)[of m] by (simp add: empty_leaf_1_def)
  show "rd (file_header nd) (CHIDB_FILE_HEADER_LEN + PGHEADER_PGTYPE_OFFSET L) = PGTYPE_TABLE_LEAF"
    using t by (simp add: node_type_packBTN getHeaderOffset_def)
qed

lemma length_fresh: "length (data (header_stored L (empty_leaf_1 L))) = 1024"
  by (simp add: empty_leaf_1_def DEFAULT_PAGE_SIZE_def)

text \<open>
  C8: under a layout whose header fields do not overlap and fit into page 1,
  \<^verbatim>\<open>chidb_Btree_open\<close> on the empty file (a file that does not exist is opened as the
  empty file) returns \<^verbatim>\<open>CHIDB_OK\<close> and leaves a file of one page of 1024 bytes, all
  pages released: its first 100 bytes are accepted by \<^verbatim>\<open>verifyHeader\<close>, bytes 0 to 15
  are the magic string with its zero byte, bytes 16 and 17 are 4 and 0, byte 18 is 1,
  byte 21 is 64, bytes 22 and 23 are 32, the type byte of the node header at offset 100
  is \<open>0x0D\<close>, and loading page 1 gives a table leaf node with no cells, with
  \<^verbatim>\<open>free_offset\<close> after the node header and \<^verbatim>\<open>cells_offset\<close> at the end of the page.
\<close>

theorem open_creates_database:
  assumes "page_header_ok L"
    and "header_in_page L \<lparr> npage = 1, data = replicate DEFAULT_PAGE_SIZE 0 \<rparr>"
  shows "\<exists>bt.
           chidb_Btree_open L [] = (CHIDB_OK, Some bt) \<and>
           length (contents (pager bt)) = 1024 \<and>
           page_size (pager bt) = 1024 \<and> n_pages (pager bt) = 1 \<and> held (pager bt) = 0 \<and>
           verifyHeader (take 100 (contents (pager bt))) = CHIDB_OK \<and>
           take 16 (contents (pager bt)) = SQLite_format_3 \<and>
           contents (pager bt) ! 16 = 0x04 \<and> contents (pager bt) ! 17 = 0x00 \<and>
           contents (pager bt) ! 18 = 1 \<and> contents (pager bt) ! 21 = 64 \<and>
           contents (pager bt) ! 22 = 0x20 \<and> contents (pager bt) ! 23 = 0x20 \<and>
           contents (pager bt) ! (100 + PGHEADER_PGTYPE_OFFSET L) = 0x0D \<and>
           (\<exists>bt' btn.
              chidb_Btree_getNodeByPage L m bt 1 = (CHIDB_OK, bt', Some btn) \<and>
              node_type btn = PGTYPE_TABLE_LEAF \<and> n_cells btn = 0 \<and>
              free_offset btn = word_of_nat (CHIDB_FILE_HEADER_LEN + LEAFPG_CELLSOFFSET_OFFSET L) \<and>
              cells_offset btn = 1024)"
proof -
  define nd where "nd = data (header_stored L (empty_leaf_1 L))"
  define bt where "bt = \<lparr> pager = \<lparr> contents = file_header nd, page_size = DEFAULT_PAGE_SIZE, n_pages = 1, held = 0 \<rparr> \<rparr>"
  have l0: "length nd = 1024" unfolding nd_def by (rule length_fresh)
  have l: "length nd = 1024" "1024 \<le> length nd" using l0 by simp_all
  note fn = fresh_node[OF assms, folded nd_def]
  have o: "chidb_Btree_open L [] = (CHIDB_OK, Some bt)"
    unfolding bt_def nd_def by (rule open_empty_file)
  have c: "contents (pager bt) = file_header nd" "page_size (pager bt) = 1024" "n_pages (pager bt) = 1"
    "held (pager bt) = 0"
    by (simp_all add: bt_def DEFAULT_PAGE_SIZE_def)
  have len: "length (contents (pager bt)) = 1024" by (simp add: c l)
  have v: "verifyHeader (take 100 (contents (pager bt))) = CHIDB_OK"
    unfolding c by (rule verifyHeader_hdr) (rule l)
  have mg: "take 16 (contents (pager bt)) = SQLite_format_3"
    using rd_hdr_magic[OF l(2)] rd_bytes_list[of 16 "file_header nd"] l by (simp add: c)
  have bys: "contents (pager bt) ! 16 = 0x04" "contents (pager bt) ! 17 = 0x00"
    "contents (pager bt) ! 18 = 1" "contents (pager bt) ! 21 = 64"
    "contents (pager bt) ! 22 = 0x20" "contents (pager bt) ! 23 = 0x20"
    using rd_hdr_bytes[OF l(2)] l by (simp_all add: c rd_def)
  have in_pg: "CHIDB_FILE_HEADER_LEN + PGHEADER_PGTYPE_OFFSET L < 1024"
    using header_in_pageD(1)[OF assms(2)] by (simp add: getHeaderOffset_def DEFAULT_PAGE_SIZE_def)
  have tag: "contents (pager bt) ! (100 + PGHEADER_PGTYPE_OFFSET L) = 0x0D"
    using fn(5) in_pg l by (simp add: c rd_def CHIDB_FILE_HEADER_LEN_def PGTYPE_TABLE_LEAF_def)
  have rp: "chidb_Pager_readPage (pager bt) 1 =
      (CHIDB_OK, (pager bt)\<lparr> held := held (pager bt) + 1 \<rparr>, Some \<lparr> npage = 1, data = contents (pager bt) \<rparr>)"
    by (rule readPage_first) (simp_all add: c l)
  have g: "chidb_Btree_getNodeByPage L m bt 1 =
      (CHIDB_OK, bt\<lparr> pager := (pager bt)\<lparr> held := held (pager bt) + 1 \<rparr> \<rparr>,
       Some (packBTN L m \<lparr> npage = 1, data = file_header nd \<rparr>))"
    by (simp add: chidb_Btree_getNodeByPage_def rp c(1))
  have co: "cells_offset (packBTN L m \<lparr> npage = 1, data = file_header nd \<rparr>) = 1024"
    using fn(4)[of m] by (simp add: DEFAULT_PAGE_SIZE_def)
  show ?thesis
    using o len c(2-4) v mg bys tag g fn(1)[of m] fn(2)[of m] fn(3)[of m] co by blast
qed

theorem open_creates_database_witness:
  "page_header_ok chidb_layout \<and>
   header_in_page chidb_layout \<lparr> npage = 1, data = replicate DEFAULT_PAGE_SIZE 0 \<rparr> \<and>
   (\<exists>bt.
           chidb_Btree_open chidb_layout [] = (CHIDB_OK, Some bt) \<and>
           length (contents (pager bt)) = 1024 \<and>
           verifyHeader (take 100 (contents (pager bt))) = CHIDB_OK \<and>
           take 16 (contents (pager bt)) = SQLite_format_3 \<and>
           contents (pager bt) ! 100 = 0x0D \<and>
           (\<exists>bt' btn.
              chidb_Btree_getNodeByPage chidb_layout ex_leaf bt 1 = (CHIDB_OK, bt', Some btn) \<and>
              node_type btn = PGTYPE_TABLE_LEAF \<and> n_cells btn = 0 \<and>
              free_offset btn = 108 \<and> cells_offset btn = 1024))"
proof -
  have h1: "page_header_ok chidb_layout" by (rule page_header_ok_chidb)
  have h2: "header_in_page chidb_layout \<lparr> npage = 1, data = replicate DEFAULT_PAGE_SIZE 0 \<rparr>"
    by (simp add: header_in_page_def page_header_fields_def chidb_layout_def getHeaderOffset_def
        CHIDB_FILE_HEADER_LEN_def DEFAULT_PAGE_SIZE_def)
  have e: "100 + PGHEADER_PGTYPE_OFFSET chidb_layout = 100"
    "(word_of_nat (CHIDB_FILE_HEADER_LEN + LEAFPG_CELLSOFFSET_OFFSET chidb_layout) :: uint16_t) = 108"
    by (simp_all add: chidb_layout_def CHIDB_FILE_HEADER_LEN_def)
  show ?thesis
    using h1 h2 open_creates_database [OF h1 h2, of ex_leaf] unfolding e by blast
qed

section \<open>Search\<close>

lemma find_empty_node:
  assumes "chidb_Btree_getNodeByPage L m bt nroot = (CHIDB_OK, bt1, Some btn)" and "n_cells btn = 0" and "0 < fuel"
  shows "chidb_Btree_find fuel L m c0 bt nroot k = Some (CHIDB_ENOTFOUND, None, bt)"
proof -
  obtain f where f: "fuel = Suc f" using assms(3) by (cases fuel) auto
  obtain r p pg where rp: "chidb_Pager_readPage (pager bt) nroot = (r, p, Some pg)"
    and bt1: "bt1 = bt\<lparr>pager := p\<rparr>" and btn: "btn = packBTN L m pg"
    using assms(1) by (auto simp: chidb_Btree_getNodeByPage_def split: prod.splits option.splits)
  have p: "p = (pager bt)\<lparr>held := held (pager bt) + 1\<rparr>"
    using rp by (auto simp: chidb_Pager_readPage_def split: if_splits)
  have fr: "snd (chidb_Btree_freeMemNode bt1 btn) = bt"
    by (simp add: chidb_Btree_freeMemNode_def chidb_Pager_releaseMemPage_def bt1 p)
  show ?thesis
    unfolding f chidb_Btree_find_def
    by (simp add: assms(1,2) nodeBTCArray_def fr)
qed

text \<open>
  C10: for every key, \<^verbatim>\<open>chidb_Btree_find\<close> on a root whose node loads with
  \<^verbatim>\<open>n_cells = 0\<close> returns \<^verbatim>\<open>CHIDB_ENOTFOUND\<close> after one iteration, stores no data, and
  leaves the B-tree file as it was before the call: the page of the loaded node has
  been released and nothing has been written.
\<close>

theorem find_empty_root:
  assumes "chidb_Btree_getNodeByPage L m bt nroot = (CHIDB_OK, bt1, Some btn)"
    and "n_cells btn = 0" and "0 < fuel"
  shows "chidb_Btree_find fuel L m c0 bt nroot k = Some (CHIDB_ENOTFOUND, None, bt)"
  using assms by (rule find_empty_node)

theorem find_empty_root_witness:
  "chidb_Btree_getNodeByPage chidb_layout ex_leaf ex_empty_db 2 =
     (CHIDB_OK, fst (snd (chidb_Btree_getNodeByPage chidb_layout ex_leaf ex_empty_db 2)),
      Some (the (snd (snd (chidb_Btree_getNodeByPage chidb_layout ex_leaf ex_empty_db 2))))) \<and>
   n_cells (the (snd (snd (chidb_Btree_getNodeByPage chidb_layout ex_leaf ex_empty_db 2)))) = 0 \<and>
   (0::nat) < 1 \<and>
   chidb_Btree_find 1 chidb_layout ex_leaf ex_row ex_empty_db 2 1 = Some (CHIDB_ENOTFOUND, None, ex_empty_db)"
proof -
  have h1: "chidb_Btree_getNodeByPage chidb_layout ex_leaf ex_empty_db 2 =
     (CHIDB_OK, fst (snd (chidb_Btree_getNodeByPage chidb_layout ex_leaf ex_empty_db 2)),
      Some (the (snd (snd (chidb_Btree_getNodeByPage chidb_layout ex_leaf ex_empty_db 2)))))"
    by code_simp
  have h2: "n_cells (the (snd (snd (chidb_Btree_getNodeByPage chidb_layout ex_leaf ex_empty_db 2)))) = 0"
    by code_simp
  have h3: "(0::nat) < 1" by simp
  show ?thesis using h1 h2 h3 find_empty_root [OF h1 h2 h3] by blast
qed





lemma getNodeByPage_release:
  assumes "chidb_Btree_getNodeByPage L m bt np = (CHIDB_OK, bt1, Some btn)"
  shows "snd (chidb_Btree_freeMemNode bt1 btn) = bt"
proof -
  obtain r p pg where rp: "chidb_Pager_readPage (pager bt) np = (r, p, Some pg)"
    and bt1: "bt1 = bt\<lparr>pager := p\<rparr>"
    using assms by (auto simp: chidb_Btree_getNodeByPage_def split: prod.splits option.splits)
  have p: "p = (pager bt)\<lparr>held := held (pager bt) + 1\<rparr>"
    using rp by (auto simp: chidb_Pager_readPage_def split: if_splits)
  show ?thesis
    by (simp add: chidb_Btree_freeMemNode_def chidb_Pager_releaseMemPage_def bt1 p)
qed

lemma index_flags:
  "PGTYPE_INDEX_LEAF AND FLAG_TABLE = 0" "PGTYPE_INDEX_LEAF AND FLAG_LEAF \<noteq> 0"
  "PGTYPE_INDEX_LEAF AND FLAG_INDEX \<noteq> 0"
  "PGTYPE_INDEX_INTERNAL AND FLAG_TABLE = 0" "PGTYPE_INDEX_INTERNAL AND FLAG_LEAF = 0"
  "PGTYPE_INDEX_INTERNAL AND FLAG_INDEX \<noteq> 0"
  "PGTYPE_TABLE_LEAF AND FLAG_TABLE \<noteq> 0" "PGTYPE_TABLE_LEAF AND FLAG_LEAF \<noteq> 0"
  "PGTYPE_TABLE_LEAF AND FLAG_INDEX = 0"
  by (simp_all add: PGTYPE_INDEX_LEAF_def PGTYPE_INDEX_INTERNAL_def PGTYPE_TABLE_LEAF_def
      FLAG_TABLE_def FLAG_LEAF_def FLAG_INDEX_def)




lemma find_loop_table_leaf_hit:
  assumes load: "chidb_Btree_getNodeByPage L m bt np = (CHIDB_OK, bt1, Some btn)"
    and ty: "node_type btn = PGTYPE_TABLE_LEAF"
    and arr: "nodeBTCArray L btn c0 = Inr btc_arr"
    and hit: "nodeKeyBSearch btn btc_arr k = (True, ncell)"
  shows "find_loop (Suc fuel) L m c0 bt nroot np k =
           Some (CHIDB_OK,
                 Some (rd_bytes (tableLeaf_data (btc_arr ! unat ncell)) 0
                         (unat (ucast (tableLeaf_data_size (btc_arr ! unat ncell)) :: uint16_t)),
                       ucast (tableLeaf_data_size (btc_arr ! unat ncell))),
                 bt)"
  by (simp add: load arr hit ty index_flags getNodeByPage_release[OF load] cellRecordCpy_def Let_def)

text \<open>
  The example pages are the pages that \<^verbatim>\<open>chidb_Btree_insertCell\<close> and
  \<^verbatim>\<open>chidb_Btree_writeNode\<close> produce from empty nodes.
\<close>

lemma ex_table_page_built:
  "data (page (snd (snd (chidb_Btree_writeNode chidb_layout \<lparr> pager = ex_pager \<rparr>
      (snd (chidb_Btree_insertCell chidb_layout ex_leaf 0 ex_row)))))) = ex_table_page"
  by code_simp

lemma ex_index_table_page_built:
  "data (page (snd (snd (chidb_Btree_writeNode chidb_layout \<lparr> pager = ex_pager \<rparr>
      (snd (chidb_Btree_insertCell chidb_layout
        (snd (chidb_Btree_insertCell chidb_layout
          (snd (chidb_Btree_insertCell chidb_layout ex_empty_table_leaf 0 (ex_table_cell 10 [0x41])))
          1 (ex_table_cell 20 [0x42])))
        2 (ex_table_cell 30 [0x43]))))))) = ex_index_table_page"
  by code_simp

lemma ex_index_page_built:
  "data (page (snd (snd (chidb_Btree_writeNode chidb_layout \<lparr> pager = ex_pager \<rparr>
      (snd (chidb_Btree_insertCell chidb_layout
        (snd (chidb_Btree_insertCell chidb_layout
          (snd (chidb_Btree_insertCell chidb_layout ex_empty_index_leaf 0 (ex_index_cell 30 10)))
          1 (ex_index_cell 50 20)))
        2 (ex_index_cell 70 30))))))) = ex_index_page"
  by code_simp

lemma ex_table_db_load: "chidb_Btree_getNodeByPage chidb_layout ex_leaf ex_table_db 2 =
   (CHIDB_OK, ex_table_db\<lparr> pager := (pager ex_table_db)\<lparr> held := 1 \<rparr> \<rparr>, Some ex_table_node)"
  by code_simp

lemma ex_table_node_cells: "nodeBTCArray chidb_layout ex_table_node ex_row = Inr [ex_row]"
  by code_simp

lemma ex_table_node_search: "nodeKeyBSearch ex_table_node [ex_row] 1 = (True, 0)"
  by (simp add: nodeKeyBSearch_def nodeKeyBSearch_loop.simps ex_table_node_def ex_row_def)









text \<open>
  C1: an inserted key should be found again. On the database that \<^verbatim>\<open>chidb_Btree_open\<close>
  creates from the empty file, \<^verbatim>\<open>chidb_Btree_insertInTable\<close> with root 1, key 1 and the
  ten bytes \<open>Hard Drive\<close> returns \<^verbatim>\<open>CHIDB_OK\<close> and leaves the B-tree file as it was,
  and \<^verbatim>\<open>chidb_Btree_find\<close> with root 1 and key 1 then returns \<^verbatim>\<open>CHIDB_ENOTFOUND\<close>
  and no data, for every amount of fuel: \<^verbatim>\<open>chidb_Btree_insert\<close> only returns
  \<^verbatim>\<open>CHIDB_OK\<close>.
\<close>

theorem insert_then_find_fresh_database:
  "\<exists>bt. chidb_Btree_open chidb_layout [] = (CHIDB_OK, Some bt) \<and>
        chidb_Btree_insertInTable bt 1 1 ex_hard_drive 10 = (CHIDB_OK, bt) \<and>
        chidb_Btree_find (Suc fuel) chidb_layout m c0 bt 1 1 = Some (CHIDB_ENOTFOUND, None, bt)"
proof -
  have h2: "header_in_page chidb_layout \<lparr> npage = 1, data = replicate DEFAULT_PAGE_SIZE 0 \<rparr>"
    by (simp add: header_in_page_def page_header_fields_def chidb_layout_def getHeaderOffset_def
        CHIDB_FILE_HEADER_LEN_def DEFAULT_PAGE_SIZE_def)
  define nd where "nd = data (header_stored chidb_layout (empty_leaf_1 chidb_layout))"
  define bt where "bt = \<lparr> pager = \<lparr> contents = file_header nd, page_size = DEFAULT_PAGE_SIZE, n_pages = 1, held = 0 \<rparr> \<rparr>"
  have o: "chidb_Btree_open chidb_layout [] = (CHIDB_OK, Some bt)"
    unfolding bt_def nd_def by (rule open_empty_file)
  have l: "length nd = 1024" unfolding nd_def by (rule length_fresh)
  have rp: "chidb_Pager_readPage (pager bt) 1 =
      (CHIDB_OK, (pager bt)\<lparr> held := held (pager bt) + 1 \<rparr>, Some \<lparr> npage = 1, data = contents (pager bt) \<rparr>)"
    by (rule readPage_first) (simp_all add: bt_def l DEFAULT_PAGE_SIZE_def)
  have g: "chidb_Btree_getNodeByPage chidb_layout m bt 1 =
      (CHIDB_OK, bt\<lparr> pager := (pager bt)\<lparr> held := held (pager bt) + 1 \<rparr> \<rparr>,
       Some (packBTN chidb_layout m \<lparr> npage = 1, data = file_header nd \<rparr>))"
    by (simp add: chidb_Btree_getNodeByPage_def rp) (simp add: bt_def)
  have n0: "n_cells (packBTN chidb_layout m \<lparr> npage = 1, data = file_header nd \<rparr>) = 0"
    unfolding nd_def by (rule fresh_node(2)[OF page_header_ok_chidb h2])
  have f: "chidb_Btree_find (Suc fuel) chidb_layout m c0 bt 1 1 = Some (CHIDB_ENOTFOUND, None, bt)"
    by (rule find_empty_node[OF g n0]) simp
  have i: "chidb_Btree_insertInTable bt 1 1 ex_hard_drive 10 = (CHIDB_OK, bt)"
    by (simp add: chidb_Btree_insertInTable_def chidb_Btree_insert_def)
  show ?thesis using o i f by blast
qed

text \<open>
  C2: inserting a key that is present should return \<^verbatim>\<open>CHIDB_EDUPLICATE\<close>. In the
  example file key 1 is present on the table leaf with root page 2
  (\<^verbatim>\<open>chidb_Btree_find\<close> returns its two bytes), and \<^verbatim>\<open>chidb_Btree_insertInTable\<close> with
  root 2 and key 1 returns \<^verbatim>\<open>CHIDB_OK\<close>; the B-tree file is as before the call.
\<close>

theorem insertInTable_present_key_returns_OK:
  "chidb_Btree_find 1 chidb_layout ex_leaf ex_row ex_table_db 2 1 =
     Some (CHIDB_OK, Some ([0x48, 0x69], 2), ex_table_db) \<and>
   chidb_Btree_insertInTable ex_table_db 2 1 [0x48, 0x69] 2 = (CHIDB_OK, ex_table_db)"
proof -
  have ty: "node_type ex_table_node = PGTYPE_TABLE_LEAF" by (simp add: ex_table_node_def)
  have d: "rd_bytes (tableLeaf_data ([ex_row] ! unat (0 :: ncell_t))) 0
             (unat (ucast (tableLeaf_data_size ([ex_row] ! unat (0 :: ncell_t))) :: uint16_t)) =
           [0x48, 0x69]"
    by code_simp
  have sz: "(ucast (tableLeaf_data_size ([ex_row] ! unat (0 :: ncell_t))) :: uint16_t) = 2"
    by code_simp
  have one: "(1 :: nat) = Suc 0" by simp
  have f: "chidb_Btree_find 1 chidb_layout ex_leaf ex_row ex_table_db 2 1 =
     Some (CHIDB_OK, Some ([0x48, 0x69], 2), ex_table_db)"
    unfolding chidb_Btree_find_def one
    using find_loop_table_leaf_hit [OF ex_table_db_load ty ex_table_node_cells ex_table_node_search, of 0 2, unfolded d, unfolded sz] .
  have i: "chidb_Btree_insertInTable ex_table_db 2 1 [0x48, 0x69] 2 = (CHIDB_OK, ex_table_db)"
    by (simp add: chidb_Btree_insertInTable_def chidb_Btree_insert_def)
  show ?thesis using f i by (rule conjI)
qed




end
